theory Spec2Isabelle
  imports Main "HOL-Library.Word" "HOL-Library.Sublist"
begin

section \<open>Python values and exceptions\<close>

text \<open>
  The program is one Python module, \<^verbatim>\<open>ui.py\<close>. The values it handles are the ones a JSON
  decoder produces: \<^verbatim>\<open>None\<close>, booleans, integers, floats, strings, lists and
  dictionaries. A \<^verbatim>\<open>str\<close> is modelled by its UTF-8 bytes, a \<^verbatim>\<open>float\<close> by the 64 bits of
  its IEEE-754 representation, a \<^verbatim>\<open>dict\<close> by its items in insertion order (keys are
  pairwise distinct in Python; lookups take the first binding).
\<close>

datatype pyval =
    PyNone
  | PyBool bool
  | PyInt int
  | PyFloat "64 word"
  | PyStr string
  | PyList "pyval list"
  | PyDict "(string \<times> pyval) list"

text \<open>
  Exceptions are values. \<^verbatim>\<open>RuntimeError\<close> is the one the module raises itself; the others
  are raised by the interpreter or by the libraries the module calls. Each carries the text
  that \<^verbatim>\<open>str(e)\<close> gives.
\<close>

datatype py_error =
    RuntimeError string
  | AttributeError string
  | TypeError string
  | RequestException string
  | HTTPError string
  | JSONDecodeError string

fun exc_str :: "py_error \<Rightarrow> string" where
  "exc_str (RuntimeError m) = m"
| "exc_str (AttributeError m) = m"
| "exc_str (TypeError m) = m"
| "exc_str (RequestException m) = m"
| "exc_str (HTTPError m) = m"
| "exc_str (JSONDecodeError m) = m"

text \<open>Python's truth value of an object: what \<^verbatim>\<open>if x:\<close> and \<^verbatim>\<open>x or y\<close> test.
  A float is false exactly when it is \<^verbatim>\<open>0.0\<close> or \<^verbatim>\<open>-0.0\<close>.\<close>

fun truthy :: "pyval \<Rightarrow> bool" where
  "truthy PyNone = False"
| "truthy (PyBool b) = b"
| "truthy (PyInt i) = (i \<noteq> 0)"
| "truthy (PyFloat w) = (w \<noteq> 0 \<and> w \<noteq> 0x8000000000000000)"
| "truthy (PyStr s) = (s \<noteq> [])"
| "truthy (PyList xs) = (xs \<noteq> [])"
| "truthy (PyDict kvs) = (kvs \<noteq> [])"

definition py_or :: "pyval \<Rightarrow> pyval \<Rightarrow> pyval" where
  "py_or x y = (if truthy x then x else y)"

definition dict_get :: "(string \<times> pyval) list \<Rightarrow> string \<Rightarrow> pyval \<Rightarrow> pyval" where
  "dict_get d k dflt = (case map_of d k of Some v \<Rightarrow> v | None \<Rightarrow> dflt)"

definition dict_values :: "(string \<times> pyval) list \<Rightarrow> pyval list" where
  "dict_values d = map snd d"

fun type_name :: "pyval \<Rightarrow> string" where
  "type_name PyNone = ''NoneType''"
| "type_name (PyBool b) = ''bool''"
| "type_name (PyInt i) = ''int''"
| "type_name (PyFloat w) = ''float''"
| "type_name (PyStr s) = ''str''"
| "type_name (PyList xs) = ''list''"
| "type_name (PyDict kvs) = ''dict''"

definition no_attribute :: "pyval \<Rightarrow> string \<Rightarrow> py_error" where
  "no_attribute v a =
     AttributeError ([CHR 0x27] @ type_name v @ [CHR 0x27] @ '' object has no attribute ''
                     @ [CHR 0x27] @ a @ [CHR 0x27])"

section \<open>String operations of the standard library\<close>

text \<open>
  \<^verbatim>\<open>str.strip()\<close> removes the characters for which \<^verbatim>\<open>str.isspace\<close> holds from both ends.
  These are their UTF-8 encodings: U+0009..U+000D, U+001C..U+0020, U+0085, U+00A0, U+1680,
  U+2000..U+200A, U+2028, U+2029, U+202F, U+205F, U+3000.
\<close>

definition py_whitespace :: "string list" where
  "py_whitespace =
     map (\<lambda>c. [c]) [CHR 0x09, CHR 0x0A, CHR 0x0B, CHR 0x0C, CHR 0x0D,
                     CHR 0x1C, CHR 0x1D, CHR 0x1E, CHR 0x1F, CHR 0x20]
     @ [[CHR 0xC2, CHR 0x85], [CHR 0xC2, CHR 0xA0], [CHR 0xE1, CHR 0x9A, CHR 0x80]]
     @ map (\<lambda>c. [CHR 0xE2, CHR 0x80, c])
         [CHR 0x80, CHR 0x81, CHR 0x82, CHR 0x83, CHR 0x84, CHR 0x85, CHR 0x86, CHR 0x87,
          CHR 0x88, CHR 0x89, CHR 0x8A, CHR 0xA8, CHR 0xA9, CHR 0xAF]
     @ [[CHR 0xE2, CHR 0x81, CHR 0x9F], [CHR 0xE3, CHR 0x80, CHR 0x80]]"

fun drop_leading :: "string list \<Rightarrow> string \<Rightarrow> string" where
  "drop_leading ws [] = []"
| "drop_leading ws (c # cs) =
     (case find (\<lambda>w. w \<noteq> [] \<and> prefix w (c # cs)) ws of
        None \<Rightarrow> c # cs
      | Some w \<Rightarrow> drop_leading ws (drop (length w - 1) cs))"

definition py_strip :: "string \<Rightarrow> string" where
  "py_strip s = rev (drop_leading (map rev py_whitespace) (rev (drop_leading py_whitespace s)))"

text \<open>
  \<^verbatim>\<open>re.search(r"\{.*\}", t, flags=re.S)\<close>: the matcher tries the start positions from left
  to right; at a start position the text must have an opening brace, then \<^verbatim>\<open>.*\<close> (any
  character, newlines too) takes as much as it can and gives back until a closing brace
  follows. So the match, if any, runs from the first opening brace that has a closing brace
  after it to the last closing brace of the text.
\<close>

definition greedy_to_close :: "string \<Rightarrow> string" where
  "greedy_to_close cs = rev (dropWhile (\<lambda>x. x \<noteq> CHR ''}'') (rev cs))"

fun re_search_braces :: "string \<Rightarrow> string option" where
  "re_search_braces [] = None"
| "re_search_braces (c # cs) =
     (if c = CHR ''{'' \<and> CHR ''}'' \<in> set cs then Some (c # greedy_to_close cs)
      else re_search_braces cs)"

section \<open>The response extractor\<close>

text \<open>
  \<^verbatim>\<open>json.loads\<close> belongs to the standard library, not to the module: the extractor takes it
  as the parameter \<open>loads\<close>, which gives \<open>None\<close> where \<^verbatim>\<open>json.loads\<close> raises. The
  extractor catches every exception of the decoder (\<^verbatim>\<open>except Exception\<close>), so which one
  it was does not matter.

  \<^verbatim>\<open>_extract_json_anywhere\<close> returns Python's \<^verbatim>\<open>None\<close> where it finds nothing, which is
  also what parsing the text \<^verbatim>\<open>null\<close> gives. It raises when its argument is a true value
  that is not a string, since that has no \<^verbatim>\<open>strip\<close>.
\<close>

definition extract_json_anywhere :: "(string \<Rightarrow> pyval option) \<Rightarrow> pyval \<Rightarrow> py_error + pyval" where
  "extract_json_anywhere loads text =
     (case py_or text (PyStr []) of
        PyStr s \<Rightarrow>
          (let t = py_strip s in
           if t = [] then Inr PyNone
           else (case loads t of
                   Some v \<Rightarrow> Inr v
                 | None \<Rightarrow>
                     (case re_search_braces t of
                        Some m \<Rightarrow> (case loads m of Some v \<Rightarrow> Inr v | None \<Rightarrow> Inr PyNone)
                      | None \<Rightarrow> Inr PyNone)))
      | other \<Rightarrow> Inl (no_attribute other ''strip''))"

definition no_json_message :: string where
  "no_json_message =
     ''Flowise response did not contain JSON. Ensure your final node returns JSON-only in the output.''"

text \<open>The inner loop \<^verbatim>\<open>for v in out.values()\<close>: \<open>Some parsed\<close> when the loop returns
  from the function, \<open>None\<close> when it runs to its end.\<close>

fun scan_values :: "(string \<Rightarrow> pyval option) \<Rightarrow> pyval list \<Rightarrow> py_error + pyval option" where
  "scan_values loads [] = Inr None"
| "scan_values loads (v # vs) =
     (case v of
        PyStr s \<Rightarrow>
          (case extract_json_anywhere loads v of
             Inl e \<Rightarrow> Inl e
           | Inr parsed \<Rightarrow> if truthy parsed then Inr (Some parsed) else scan_values loads vs)
      | _ \<Rightarrow> scan_values loads vs)"

text \<open>The outer loop \<^verbatim>\<open>for node in reversed(executed)\<close> over the nodes in the order of
  iteration, followed by the final \<^verbatim>\<open>raise\<close>.\<close>

fun scan_nodes :: "(string \<Rightarrow> pyval option) \<Rightarrow> pyval list \<Rightarrow> py_error + pyval" where
  "scan_nodes loads [] = Inl (RuntimeError no_json_message)"
| "scan_nodes loads (node # rest) =
     (case node of
        PyDict n \<Rightarrow>
          (case py_or (dict_get n ''data'' PyNone) (PyDict []) of
             PyDict node_data \<Rightarrow>
               (case py_or (dict_get node_data ''output'' PyNone) (PyDict []) of
                  PyDict out \<Rightarrow>
                    (case extract_json_anywhere loads (dict_get out ''content'' (PyStr [])) of
                       Inl e \<Rightarrow> Inl e
                     | Inr parsed \<Rightarrow>
                         if truthy parsed then Inr parsed
                         else (case scan_values loads (dict_values out) of
                                 Inl e \<Rightarrow> Inl e
                               | Inr (Some parsed') \<Rightarrow> Inr parsed'
                               | Inr None \<Rightarrow> scan_nodes loads rest))
                | _ \<Rightarrow> scan_nodes loads rest)
           | other \<Rightarrow> Inl (no_attribute other ''get''))
      | other \<Rightarrow> Inl (no_attribute other ''get''))"

text \<open>
  The fallback on the execution trace, from \<^verbatim>\<open>executed = ...\<close> to the final
  \<^verbatim>\<open>raise\<close>. \<^verbatim>\<open>reversed(executed)\<close> iterates a list from its last element; a string or
  a dictionary (true, so not empty) yields a character or a key, a string, whose \<^verbatim>\<open>get\<close>
  does not exist; any other true value is not reversible.
\<close>

definition scan_trace :: "(string \<Rightarrow> pyval option) \<Rightarrow> (string \<times> pyval) list \<Rightarrow> py_error + pyval" where
  "scan_trace loads r =
     (case py_or (dict_get r ''agentFlowExecutedData'' PyNone) (PyList []) of
        PyList executed \<Rightarrow> scan_nodes loads (rev executed)
      | PyStr s \<Rightarrow> Inl (no_attribute (PyStr s) ''get'')
      | PyDict d \<Rightarrow> Inl (no_attribute (PyStr []) ''get'')
      | other \<Rightarrow>
          Inl (TypeError ([CHR 0x27] @ type_name other @ [CHR 0x27]
                          @ '' object is not reversible'')))"

definition extract_json_from_flowise_response ::
    "(string \<Rightarrow> pyval option) \<Rightarrow> pyval \<Rightarrow> py_error + pyval" where
  "extract_json_from_flowise_response loads resp =
     (case resp of
        PyDict r \<Rightarrow>
          (case extract_json_anywhere loads (dict_get r ''text'' (PyStr [])) of
             Inl e \<Rightarrow> Inl e
           | Inr parsed \<Rightarrow> if truthy parsed then Inr parsed else scan_trace loads r)
      | other \<Rightarrow> Inl (no_attribute other ''get''))"

section \<open>A model of the JSON decoder\<close>

text \<open>
  The theorems about the extractor hold for every decoder \<open>loads\<close>. To run the extractor on
  concrete responses, \<open>json_loads\<close> models \<^verbatim>\<open>json.loads\<close> of CPython on a \<^verbatim>\<open>str\<close>:
  a recursive descent over the text, as the scanner of the \<^verbatim>\<open>json\<close> package does it.
  The resource limits of the interpreter (the recursion depth, the digit limit of the
  conversion to \<^verbatim>\<open>int\<close>) are not part of the model.
\<close>

definition is_digit :: "char \<Rightarrow> bool" where
  "is_digit c = (48 \<le> (of_char c :: nat) \<and> (of_char c :: nat) \<le> 57)"

definition digit_val :: "char \<Rightarrow> nat" where
  "digit_val c = of_char c - 48"

definition nat_of_digits :: "string \<Rightarrow> nat" where
  "nat_of_digits ds = foldl (\<lambda>acc c. 10 * acc + digit_val c) 0 ds"

definition hex_val :: "char \<Rightarrow> nat option" where
  "hex_val c =
     (let n = (of_char c :: nat) in
      if 48 \<le> n \<and> n \<le> 57 then Some (n - 48)
      else if 97 \<le> n \<and> n \<le> 102 then Some (n - 87)
      else if 65 \<le> n \<and> n \<le> 70 then Some (n - 55)
      else None)"

text \<open>The value of the four hexadecimal digits at the head of the text.\<close>

definition hex4 :: "string \<Rightarrow> nat option" where
  "hex4 s =
     (case s of
        a # b # c # d # r \<Rightarrow>
          (case (hex_val a, hex_val b, hex_val c, hex_val d) of
             (Some x, Some y, Some z, Some w) \<Rightarrow> Some (((x * 16 + y) * 16 + z) * 16 + w)
           | _ \<Rightarrow> None)
      | _ \<Rightarrow> None)"

definition utf8_encode :: "nat \<Rightarrow> string" where
  "utf8_encode c =
     (if c < 0x80 then [char_of c]
      else if c < 0x800 then [char_of (0xC0 + c div 64), char_of (0x80 + c mod 64)]
      else if c < 0x10000 then
        [char_of (0xE0 + c div 4096), char_of (0x80 + c div 64 mod 64), char_of (0x80 + c mod 64)]
      else
        [char_of (0xF0 + c div 262144), char_of (0x80 + c div 4096 mod 64),
         char_of (0x80 + c div 64 mod 64), char_of (0x80 + c mod 64)])"

definition backslash :: "char \<Rightarrow> char option" where
  "backslash e =
     (if e = CHR 0x22 then Some (CHR 0x22)
      else if e = CHR 0x5C then Some (CHR 0x5C)
      else if e = CHR ''/'' then Some (CHR ''/'')
      else if e = CHR ''b'' then Some (CHR 0x08)
      else if e = CHR ''f'' then Some (CHR 0x0C)
      else if e = CHR ''n'' then Some (CHR 0x0A)
      else if e = CHR ''r'' then Some (CHR 0x0D)
      else if e = CHR ''t'' then Some (CHR 0x09)
      else None)"

text \<open>
  The escape \<^verbatim>\<open>\uXXXX\<close>, the text being what follows the \<^verbatim>\<open>u\<close>: the code point and
  the number of characters read. The four digits must not end the text; a high surrogate
  followed by an escaped low surrogate, with more text after it, is joined with it. A
  surrogate that stays alone is encoded like any other code point.
\<close>

definition unicode_escape :: "string \<Rightarrow> (nat \<times> nat) option" where
  "unicode_escape s =
     (case hex4 s of
        None \<Rightarrow> None
      | Some c \<Rightarrow>
          if length s \<le> 4 then None
          else if 0xD800 \<le> c \<and> c \<le> 0xDBFF \<and> 10 < length s
                  \<and> take 2 (drop 4 s) = [CHR 0x5C, CHR ''u''] then
            (case hex4 (drop 6 s) of
               None \<Rightarrow> None
             | Some c2 \<Rightarrow>
                 if 0xDC00 \<le> c2 \<and> c2 \<le> 0xDFFF
                 then Some (0x10000 + ((c - 0xD800) * 1024 + (c2 - 0xDC00)), 10)
                 else Some (c, 4))
          else Some (c, 4))"

text \<open>\<^verbatim>\<open>scanstring\<close> in strict mode, the text being what follows the opening quote: the
  decoded string and the text after the closing quote.\<close>

fun scanstring :: "string \<Rightarrow> (string \<times> string) option" where
  "scanstring [] = None"
| "scanstring (c # cs) =
     (if c = CHR 0x22 then Some ([], cs)
      else if c = CHR 0x5C then
        (case cs of
           [] \<Rightarrow> None
         | e # r \<Rightarrow>
             if e = CHR ''u'' then
               (case unicode_escape r of
                  None \<Rightarrow> None
                | Some (u, k) \<Rightarrow>
                    (case scanstring (drop k r) of
                       None \<Rightarrow> None
                     | Some (str, rest) \<Rightarrow> Some (utf8_encode u @ str, rest)))
             else
               (case backslash e of
                  None \<Rightarrow> None
                | Some ch \<Rightarrow>
                    (case scanstring r of
                       None \<Rightarrow> None
                     | Some (str, rest) \<Rightarrow> Some (ch # str, rest))))
      else if (of_char c :: nat) < 0x20 then None
      else (case scanstring cs of
              None \<Rightarrow> None
            | Some (str, rest) \<Rightarrow> Some (c # str, rest)))"

text \<open>
  A float literal is converted to the nearest double, ties to even, as \<^verbatim>\<open>float()\<close>
  does. The literal has the value \<open>m * 10 ^ e\<close>; the result is the bit pattern.
\<close>

fun bit_length :: "nat \<Rightarrow> nat" where
  "bit_length n = (if n = 0 then 0 else Suc (bit_length (n div 2)))"

declare bit_length.simps [simp del]

definition round_half_even :: "nat \<Rightarrow> nat \<Rightarrow> nat" where
  "round_half_even n d =
     (let q = n div d; r = n mod d in
      if 2 * r < d then q
      else if d < 2 * r then q + 1
      else if even q then q else q + 1)"

definition double_bits :: "nat \<Rightarrow> int \<Rightarrow> nat" where
  "double_bits m e =
     (if m = 0 then 0
      else
        let num = (if 0 \<le> e then m * 10 ^ nat e else m);
            den = (if 0 \<le> e then 1 else 10 ^ nat (- e));
            d = int (bit_length num) - int (bit_length den);
            fl = (if den * 2 ^ nat d \<le> num * 2 ^ nat (- d) then d else d - 1);
            k = max (fl - 52) (- 1074);
            q = round_half_even (num * 2 ^ nat (- k)) (den * 2 ^ nat k);
            q' = (if q = 2 ^ 53 then 2 ^ 52 else q);
            k' = (if q = 2 ^ 53 then k + 1 else k)
        in if 971 < k' then 0x7FF0000000000000
           else if q' < 2 ^ 52 then q'
           else nat (k' + 1075) * 2 ^ 52 + (q' - 2 ^ 52))"

definition float_of_literal :: "bool \<Rightarrow> nat \<Rightarrow> int \<Rightarrow> 64 word" where
  "float_of_literal neg m e =
     (if neg then 0x8000000000000000 else 0) + word_of_nat (double_bits m e)"

text \<open>
  A number at the head of the text: an optional minus sign, an integer part without a
  leading zero, an optional fraction and an optional exponent; a fraction or an exponent
  makes it a float. What does not complete a fraction or an exponent is left in the text.
  Each part is scanned with the text that follows it.
\<close>

definition scan_int :: "string \<Rightarrow> string \<times> string" where
  "scan_int s =
     (if take 1 s = ''0'' then (''0'', drop 1 s)
      else (takeWhile is_digit s, dropWhile is_digit s))"

definition scan_frac :: "string \<Rightarrow> string \<times> string" where
  "scan_frac s =
     (if take 1 s = ''.'' \<and> takeWhile is_digit (drop 1 s) \<noteq> []
      then (takeWhile is_digit (drop 1 s), dropWhile is_digit (drop 1 s))
      else ([], s))"

definition scan_exp :: "string \<Rightarrow> bool \<times> string \<times> string" where
  "scan_exp s =
     (if take 1 s = ''e'' \<or> take 1 s = ''E'' then
        (let sg = take 1 (drop 1 s);
             ds = (if sg = ''-'' \<or> sg = ''+'' then drop 2 s else drop 1 s)
         in if takeWhile is_digit ds = [] then (False, [], s)
            else (sg = ''-'', takeWhile is_digit ds, dropWhile is_digit ds))
      else (False, [], s))"

definition match_number :: "string \<Rightarrow> (pyval \<times> string) option" where
  "match_number s =
     (let neg = (take 1 s = ''-'');
          (ip, s2) = scan_int (if neg then drop 1 s else s);
          (fr, s3) = scan_frac s2;
          (eneg, ex, rest) = scan_exp s3
      in if ip = [] then None
         else if fr = [] \<and> ex = [] then
           Some (PyInt (if neg then - int (nat_of_digits ip) else int (nat_of_digits ip)), rest)
         else
           Some (PyFloat (float_of_literal neg (nat_of_digits (ip @ fr))
                   ((if eneg then - int (nat_of_digits ex) else int (nat_of_digits ex))
                    - int (length fr))), rest))"

definition skip_ws :: "string \<Rightarrow> string" where
  "skip_ws s = dropWhile (\<lambda>c. c = CHR '' '' \<or> c = CHR 0x09 \<or> c = CHR 0x0A \<or> c = CHR 0x0D) s"

text \<open>A dictionary is built by assignments: a key met again keeps its place and takes
  the new value.\<close>

fun dict_set :: "(string \<times> pyval) list \<Rightarrow> string \<Rightarrow> pyval \<Rightarrow> (string \<times> pyval) list" where
  "dict_set [] k v = [(k, v)]"
| "dict_set ((k', v') # d) k v = (if k' = k then (k, v) # d else (k', v') # dict_set d k v)"

text \<open>The result of a scan: a value and the text after it, a text that is not JSON, or a
  bound on the number of calls that was too small.\<close>

datatype scan = Scanned pyval string | Invalid | Exhausted

text \<open>A value other than a string, an object or an array: one of the constants or a
  number. The number is tried before \<^verbatim>\<open>NaN\<close>, \<^verbatim>\<open>Infinity\<close> and \<^verbatim>\<open>-Infinity\<close>.\<close>

definition scan_atom :: "string \<Rightarrow> scan" where
  "scan_atom s =
     (if take 4 s = ''null'' then Scanned PyNone (drop 4 s)
      else if take 4 s = ''true'' then Scanned (PyBool True) (drop 4 s)
      else if take 5 s = ''false'' then Scanned (PyBool False) (drop 5 s)
      else
        (case match_number s of
           Some (v, r') \<Rightarrow> Scanned v r'
         | None \<Rightarrow>
             if take 3 s = ''NaN'' then Scanned (PyFloat 0x7FF8000000000000) (drop 3 s)
             else if take 8 s = ''Infinity'' then Scanned (PyFloat 0x7FF0000000000000) (drop 8 s)
             else if take 9 s = ''-Infinity'' then Scanned (PyFloat 0xFFF0000000000000) (drop 9 s)
             else Invalid))"

text \<open>
  The scanner. The first argument bounds the number of calls, so that the recursion is
  structural; \<open>json_loads\<close> gives it more than the text can use.
\<close>

fun scan_once :: "nat \<Rightarrow> string \<Rightarrow> scan"
  and parse_array :: "nat \<Rightarrow> pyval list \<Rightarrow> string \<Rightarrow> scan"
  and parse_object :: "nat \<Rightarrow> (string \<times> pyval) list \<Rightarrow> string \<Rightarrow> scan" where
  "scan_once 0 s = Exhausted"
| "scan_once (Suc n) s =
     (case s of
        [] \<Rightarrow> Invalid
      | c # r \<Rightarrow>
          if c = CHR 0x22 then
            (case scanstring r of None \<Rightarrow> Invalid | Some (str, r') \<Rightarrow> Scanned (PyStr str) r')
          else if c = CHR ''{'' then
            (if take 1 (skip_ws r) = ''}'' then Scanned (PyDict []) (drop 1 (skip_ws r))
             else parse_object n [] (skip_ws r))
          else if c = CHR ''['' then
            (if take 1 (skip_ws r) = '']'' then Scanned (PyList []) (drop 1 (skip_ws r))
             else parse_array n [] (skip_ws r))
          else scan_atom s)"
| "parse_array 0 acc s = Exhausted"
| "parse_array (Suc n) acc s =
     (case scan_once n s of
        Scanned v r \<Rightarrow>
          (case skip_ws r of
             [] \<Rightarrow> Invalid
           | c # r' \<Rightarrow>
               if c = CHR '']'' then Scanned (PyList (acc @ [v])) r'
               else if c = CHR '','' then parse_array n (acc @ [v]) (skip_ws r')
               else Invalid)
      | other \<Rightarrow> other)"
| "parse_object 0 acc s = Exhausted"
| "parse_object (Suc n) acc s =
     (case s of
        [] \<Rightarrow> Invalid
      | c # r \<Rightarrow>
          if c \<noteq> CHR 0x22 then Invalid
          else
            (case scanstring r of
               None \<Rightarrow> Invalid
             | Some (key, r1) \<Rightarrow>
                 (case skip_ws r1 of
                    [] \<Rightarrow> Invalid
                  | c1 # r2 \<Rightarrow>
                      if c1 \<noteq> CHR '':'' then Invalid
                      else
                        (case scan_once n (skip_ws r2) of
                           Scanned v r3 \<Rightarrow>
                             (case skip_ws r3 of
                                [] \<Rightarrow> Invalid
                              | c3 # r4 \<Rightarrow>
                                  if c3 = CHR ''}'' then Scanned (PyDict (dict_set acc key v)) r4
                                  else if c3 = CHR '','' then
                                    parse_object n (dict_set acc key v) (skip_ws r4)
                                  else Invalid)
                         | other \<Rightarrow> other))))"

text \<open>\<^verbatim>\<open>json.loads\<close>: white space, one value, white space, and nothing else.\<close>

definition json_loads :: "string \<Rightarrow> pyval option" where
  "json_loads s =
     (case scan_once (Suc (length s + length s)) (skip_ws s) of
        Scanned v r \<Rightarrow> if skip_ws r = [] then Some v else None
      | _ \<Rightarrow> None)"

text \<open>A scan that did not run out of its bound and, where it gave a value, consumed some
  of the text.\<close>

definition scan_ok :: "scan \<Rightarrow> string \<Rightarrow> bool" where
  "scan_ok res s =
     (case res of Scanned v r \<Rightarrow> length r < length s | Invalid \<Rightarrow> True | Exhausted \<Rightarrow> False)"

section \<open>The transport client\<close>

text \<open>
  The module constants \<^verbatim>\<open>FLOWISE_BASE_URL\<close>, \<^verbatim>\<open>FLOWISE_CHATFLOW_ID\<close> and
  \<^verbatim>\<open>FLOWISE_API_KEY\<close>, read from the environment when the module is loaded.
\<close>

record flowise_config =
  base_url :: string
  chatflow_id :: string
  api_key :: string

text \<open>The arguments of \<^verbatim>\<open>requests.post\<close>: the URL, the \<^verbatim>\<open>json\<close> payload, the headers and
  the timeout in seconds.\<close>

record http_request =
  req_url :: string
  req_json :: "(string \<times> pyval) list"
  req_headers :: "(string \<times> string) list"
  req_timeout :: nat

text \<open>
  \<^verbatim>\<open>call_flowise\<close>. The three library calls \<^verbatim>\<open>requests.post\<close>, \<^verbatim>\<open>raise_for_status\<close> and
  \<^verbatim>\<open>r.json()\<close> are the parameter \<open>post\<close>: for a request, the decoded body, or the
  exception that one of the three raises. The result has the requests that were sent and
  what the function returns or raises.
\<close>

definition call_flowise ::
    "flowise_config \<Rightarrow> string \<Rightarrow> (string \<Rightarrow> pyval option) \<Rightarrow> (http_request \<Rightarrow> py_error + pyval)
     \<Rightarrow> string \<Rightarrow> (string \<times> pyval) list option
     \<Rightarrow> http_request list \<times> (py_error + pyval \<times> pyval)" where
  "call_flowise cfg session_sid loads post question extra =
     (if chatflow_id cfg = [] then
        ([], Inl (RuntimeError ''FLOWISE_CHATFLOW_ID is missing. Add it to .env''))
      else
        let url = base_url cfg @ ''/api/v1/prediction/'' @ chatflow_id cfg;
            payload = [(''question'', PyStr question), (''sessionId'', PyStr session_sid)];
            payload = (case extra of
                         Some e \<Rightarrow> if e \<noteq> [] then dict_set payload ''overrideConfig'' (PyDict e)
                                   else payload
                       | None \<Rightarrow> payload);
            headers = [(''Content-Type'', ''application/json'')];
            headers = (if api_key cfg \<noteq> [] then headers @ [(''Authorization'', ''Bearer '' @ api_key cfg)]
                       else headers);
            req = \<lparr>req_url = url, req_json = payload, req_headers = headers, req_timeout = 180\<rparr>
        in ([req],
            case post req of
              Inl e \<Rightarrow> Inl e
            | Inr raw \<Rightarrow>
                (case extract_json_from_flowise_response loads raw of
                   Inl e \<Rightarrow> Inl e
                 | Inr data \<Rightarrow> Inr (data, raw))))"

section \<open>The decision renderer\<close>

text \<open>What the script shows, call by call: \<^verbatim>\<open>st.markdown\<close> with its
  \<^verbatim>\<open>unsafe_allow_html\<close> flag, \<^verbatim>\<open>st.warning\<close>, \<^verbatim>\<open>st.error\<close>, \<^verbatim>\<open>st.spinner\<close>, \<^verbatim>\<open>st.code\<close>,
  \<^verbatim>\<open>st.expander\<close> with what is shown inside, an exception that nothing catches, and
  \<^verbatim>\<open>st.stop\<close>.\<close>

datatype st_call =
    St_markdown string bool
  | St_warning string
  | St_error string
  | St_spinner string
  | St_code string
  | St_expander string "st_call list"
  | St_exception py_error
  | St_stop

text \<open>
  A replacement field of an f-string or of \<^verbatim>\<open>str.format\<close> with no format specification:
  a string is inserted as it is, any other object through the builtin \<^verbatim>\<open>str\<close>, which is
  the parameter \<open>pystr\<close>.
\<close>

definition fmt :: "(pyval \<Rightarrow> string) \<Rightarrow> pyval \<Rightarrow> string" where
  "fmt pystr v = (case v of PyStr s \<Rightarrow> s | _ \<Rightarrow> pystr v)"

definition nl :: string where
  "nl = [CHR 0x0A]"

fun py_join :: "string \<Rightarrow> string list \<Rightarrow> string" where
  "py_join sep [] = []"
| "py_join sep [x] = x"
| "py_join sep (x # y # ys) = x @ sep @ py_join sep (y # ys)"

text \<open>\<^verbatim>\<open>html_block.format(...)\<close>: the template with its five fields filled in.\<close>

definition html_block :: "string \<Rightarrow> string \<Rightarrow> string \<Rightarrow> string \<Rightarrow> string \<Rightarrow> string" where
  \<open>html_block pill_class urgency authority assessment_block authority_block =
     nl @ ''    <div class="card">''
     @ nl @ ''      <div class="kpi">''
     @ nl @ ''        <div class="pill '' @ pill_class @ ''">Urgency: '' @ urgency @ ''</div>''
     @ nl @ ''        <div class="pill">Recommended authority: '' @ authority @ ''</div>''
     @ nl @ ''      </div>''
     @ nl @ ''      <hr/>''
     @ nl @ ''      <div class="section-title">Assessment</div>''
     @ nl @ ''      '' @ assessment_block
     @ nl @ ''      <hr/>''
     @ nl @ ''      <div class="section-title">Who to contact</div>''
     @ nl @ ''      '' @ authority_block
     @ nl @ ''      <hr/>''
     @ nl @ ''      <div class="section-title">What to do now</div>''
     @ nl @ ''    </div>''
     @ nl @ ''    ''\<close>

text \<open>\<^verbatim>\<open>isinstance(v, list) and v\<close>, and \<^verbatim>\<open>"\n".join([f"- {s}" for s in v])\<close> for a
  list \<open>v\<close>.\<close>

definition nonempty_list :: "pyval \<Rightarrow> bool" where
  "nonempty_list v = (case v of PyList xs \<Rightarrow> xs \<noteq> [] | _ \<Rightarrow> False)"

definition bullets :: "(pyval \<Rightarrow> string) \<Rightarrow> pyval \<Rightarrow> string" where
  "bullets pystr v =
     (case v of PyList xs \<Rightarrow> py_join nl (map (\<lambda>s. ''- '' @ fmt pystr s) xs) | _ \<Rightarrow> [])"

definition pill_class_of :: "pyval \<Rightarrow> string" where
  "pill_class_of urgency =
     (if urgency = PyStr ''Emergency'' then ''danger''
      else if urgency = PyStr ''High'' then ''warn''
      else ''ok'')"

text \<open>
  \<^verbatim>\<open>render_decision\<close>: from the object it is given and what is shown so far, the object
  after the call and what is shown after it. An object that is not a dictionary has no
  \<^verbatim>\<open>get\<close>.
\<close>

definition render_decision ::
    "(pyval \<Rightarrow> string) \<Rightarrow> pyval \<Rightarrow> st_call list \<Rightarrow> py_error + pyval \<times> st_call list" where
  \<open>render_decision pystr data shown =
     (case data of
        PyDict d \<Rightarrow>
          (let urgency = dict_get d ''urgency_level'' (PyStr ''Normal'');
               authority = dict_get d ''recommended_authority'' (PyStr ''Other'');
               authority_details = dict_get d ''recommended_authority_details'' (PyStr []);
               assessment = dict_get d ''assessment'' (PyStr []);
               next_steps = dict_get d ''next_steps'' (PyList []);
               details_to_prepare = dict_get d ''details_to_prepare'' (PyList []);
               questions = dict_get d ''questions_if_missing'' (PyList []);
               pill_class = pill_class_of urgency;
               assessment_block =
                 (if truthy assessment then assessment
                  else PyStr ''<span class='small'>(No assessment)</span>'');
               authority_block =
                 (if truthy authority_details then authority_details
                  else PyStr ''<span class='small'>(Not enough info)</span>'')
           in Inr (data,
                shown
                @ [St_markdown
                     (html_block pill_class (fmt pystr urgency) (fmt pystr authority)
                        (fmt pystr assessment_block) (fmt pystr authority_block)) True]
                @ (if nonempty_list next_steps
                   then [St_markdown (bullets pystr next_steps) False] else [])
                @ [St_markdown ''**What details to prepare**'' False]
                @ (if nonempty_list details_to_prepare
                   then [St_markdown (bullets pystr details_to_prepare) False] else [])
                @ (if nonempty_list questions
                   then [St_markdown ''**Quick questions (if needed)**'' False,
                         St_markdown (bullets pystr questions) False]
                   else [])))
      | other \<Rightarrow> Inl (no_attribute other ''get''))\<close>

section \<open>The handlers of the report form and of the evaluation tab\<close>

text \<open>The session (its identifier, the debug checkbox, the configuration) and the
  library functions the handlers use: \<^verbatim>\<open>json.loads\<close>, the HTTP exchange, the builtin
  \<^verbatim>\<open>str\<close> and \<^verbatim>\<open>json.dumps(raw, indent=2, ensure_ascii=False)\<close>.\<close>

record session =
  config :: flowise_config
  sid :: string
  show_debug :: bool

record library =
  lib_loads :: "string \<Rightarrow> pyval option"
  lib_post :: "http_request \<Rightarrow> py_error + pyval"
  lib_str :: "pyval \<Rightarrow> string"
  lib_dumps :: "pyval \<Rightarrow> string"

definition spinner_text :: string where
  "spinner_text = ''Sending to Flowise for analysis'' @ [CHR 0xE2, CHR 0x80, CHR 0xA6]"

definition recommendation_heading :: string where
  "recommendation_heading = ''### '' @ [CHR 0xE2, CHR 0x9C, CHR 0x85] @ '' Recommendation''"

definition debug_title :: string where
  "debug_title = [CHR 0xF0, CHR 0x9F, CHR 0xA7, CHR 0xAA] @ '' Raw Flowise response (debug)''"

text \<open>
  What both handlers do with the outcome of \<^verbatim>\<open>call_flowise\<close>: an exception is shown
  with \<^verbatim>\<open>st.error\<close> and the script stops; otherwise the heading and the recommendation
  are rendered, then the raw response if the debug checkbox is set.
\<close>

definition show_outcome :: "session \<Rightarrow> library \<Rightarrow> py_error + pyval \<times> pyval \<Rightarrow> st_call list" where
  "show_outcome ses lib outcome =
     (case outcome of
        Inl e \<Rightarrow> [St_spinner spinner_text, St_error (''Flowise call failed: '' @ exc_str e), St_stop]
      | Inr (data, raw) \<Rightarrow>
          (case render_decision (lib_str lib) data
                  [St_spinner spinner_text, St_markdown recommendation_heading False] of
             Inl e \<Rightarrow> [St_spinner spinner_text, St_markdown recommendation_heading False,
                       St_exception e]
           | Inr (data', shown) \<Rightarrow>
               shown @ (if show_debug ses then [St_expander debug_title [St_code (lib_dumps lib raw)]]
                        else [])))"

text \<open>The report form, submitted with the issue text, the location and the category.\<close>

definition tab_report_submit ::
    "session \<Rightarrow> library \<Rightarrow> string \<Rightarrow> string \<Rightarrow> string \<Rightarrow> http_request list \<times> st_call list" where
  "tab_report_submit ses lib issue_text location issue_category =
     (if py_strip issue_text = [] then
        ([], [St_warning ''Please enter a short issue description.''])
      else
        let question = issue_text @ nl @ ''Location: '' @ location @ nl
                       @ ''Category: '' @ issue_category;
            (sent, outcome) =
              call_flowise (config ses) (sid ses) (lib_loads lib) (lib_post lib) question
                (Some [(''location'', PyStr location), (''issue_category'', PyStr issue_category)])
        in (sent, show_outcome ses lib outcome))"

text \<open>The evaluation tab, run on a scenario with its issue and its location.\<close>

definition scenarios :: "(string \<times> string \<times> string) list" where
  "scenarios =
     [(''Lift breakdown (Town Council)'',
       ''The lift at Blk 210 has been down since yesterday. Elderly residents cannot go downstairs.'',
       ''Tampines, Blk 210''),
      (''Suspected theft (Police)'',
       ''My bicycle was stolen from the void deck bicycle rack. There is CCTV nearby.'',
       ''Bedok, Blk 123''),
      (''Fire / smoke smell (Emergency)'',
       ''Strong smoke smell coming from a unit and people are coughing in the corridor.'',
       ''Jurong West, Blk 45''),
      (''Unsure / general query'',
       ''Where can I report repeated loud noise late at night in my block?'',
       ''Sengkang, Blk 88'')]"

definition tab_eval_run ::
    "session \<Rightarrow> library \<Rightarrow> string \<times> string \<Rightarrow> http_request list \<times> st_call list" where
  "tab_eval_run ses lib s =
     (let question = py_strip (py_join nl [fst s, ''Location: '' @ snd s]);
          (sent, outcome) =
            call_flowise (config ses) (sid ses) (lib_loads lib) (lib_post lib) question
              (Some [(''location'', PyStr (snd s))])
      in (sent, show_outcome ses lib outcome))"

section \<open>The probing order, as the specification words it\<close>

text \<open>
  The parse-then-salvage strategy on one string: the trimmed text is parsed directly;
  failing that, the span from the first opening brace to the last closing brace is parsed;
  failing that, nothing (\<^verbatim>\<open>None\<close>).
\<close>

definition salvage_parse :: "(string \<Rightarrow> pyval option) \<Rightarrow> string \<Rightarrow> pyval" where
  "salvage_parse loads s =
     (let t = py_strip s in
      if t = [] then PyNone
      else (case loads t of
              Some v \<Rightarrow> v
            | None \<Rightarrow>
                (case re_search_braces t of
                   Some m \<Rightarrow> (case loads m of Some v \<Rightarrow> v | None \<Rightarrow> PyNone)
                 | None \<Rightarrow> PyNone)))"

text \<open>Whether one of the two parses of the strategy succeeds on a string.\<close>

definition yields_parse :: "(string \<Rightarrow> pyval option) \<Rightarrow> string \<Rightarrow> bool" where
  "yields_parse loads s =
     (let t = py_strip s in
      t \<noteq> [] \<and>
      (loads t \<noteq> None \<or>
       (case re_search_braces t of Some m \<Rightarrow> loads m \<noteq> None | None \<Rightarrow> False)))"

fun str_values :: "pyval list \<Rightarrow> string list" where
  "str_values [] = []"
| "str_values (PyStr s # vs) = s # str_values vs"
| "str_values (_ # vs) = str_values vs"

text \<open>The strings probed in an output mapping: its \<^verbatim>\<open>content\<close> if that is a string, then
  every string among its values, in the order of the mapping.\<close>

definition output_strings :: "(string \<times> pyval) list \<Rightarrow> string list" where
  "output_strings out =
     (case dict_get out ''content'' (PyStr []) of PyStr s \<Rightarrow> [s] | _ \<Rightarrow> [])
     @ str_values (dict_values out)"

text \<open>The output mapping of a trace entry: an exception where the entry or its
  \<^verbatim>\<open>data\<close> has no \<^verbatim>\<open>get\<close>, \<open>None\<close> where the output is not a mapping.\<close>

definition node_output :: "pyval \<Rightarrow> py_error + (string \<times> pyval) list option" where
  "node_output node =
     (case node of
        PyDict n \<Rightarrow>
          (case py_or (dict_get n ''data'' PyNone) (PyDict []) of
             PyDict node_data \<Rightarrow>
               (case py_or (dict_get node_data ''output'' PyNone) (PyDict []) of
                  PyDict out \<Rightarrow> Inr (Some out)
                | _ \<Rightarrow> Inr None)
           | other \<Rightarrow> Inl (no_attribute other ''get''))
      | other \<Rightarrow> Inl (no_attribute other ''get''))"

definition node_strings :: "pyval \<Rightarrow> string list" where
  "node_strings node =
     (case node_output node of Inr (Some out) \<Rightarrow> output_strings out | _ \<Rightarrow> [])"

text \<open>A trace entry is well formed when it is a mapping, its \<^verbatim>\<open>data\<close> is absent, false or a
  mapping, and the \<^verbatim>\<open>content\<close> of its output mapping is absent, false or a string.\<close>

definition wf_node :: "pyval \<Rightarrow> bool" where
  "wf_node node =
     (case node_output node of
        Inl e \<Rightarrow> False
      | Inr None \<Rightarrow> True
      | Inr (Some out) \<Rightarrow>
          (case py_or (dict_get out ''content'' (PyStr [])) (PyStr []) of
             PyStr s \<Rightarrow> True
           | _ \<Rightarrow> False))"

text \<open>The trace entries of a response in the order of iteration, last entry first.\<close>

definition trace_nodes :: "(string \<times> pyval) list \<Rightarrow> pyval list" where
  "trace_nodes r =
     (case py_or (dict_get r ''agentFlowExecutedData'' PyNone) (PyList []) of
        PyList executed \<Rightarrow> rev executed
      | _ \<Rightarrow> [])"

text \<open>Every string of a response that the extractor may probe, in probing order: the
  top-level text, then the strings of the trace entries.\<close>

definition probed_strings :: "pyval \<Rightarrow> string list" where
  "probed_strings resp =
     (case resp of
        PyDict r \<Rightarrow>
          (case dict_get r ''text'' (PyStr []) of PyStr s \<Rightarrow> [s] | _ \<Rightarrow> [])
          @ concat (map node_strings (trace_nodes r))
      | _ \<Rightarrow> [])"


section \<open>The bound of the scanner suffices\<close>

lemma scanstring_shorter: "scanstring s = Some (str, r) \<Longrightarrow> length r < length s"
proof (induction s arbitrary: str r rule: scanstring.induct)
  case 1
  then show ?case by simp
next
  case (2 c cs)
  show ?case
  proof (cases "c = CHR 0x22")
    case True
    with "2.prems" show ?thesis by simp
  next
    case nq: False
    show ?thesis
    proof (cases "c = CHR 0x5C")
      case True
      show ?thesis
      proof (cases cs)
        case Nil
        with "2.prems" nq True show ?thesis by simp
      next
        case (Cons e r')
        show ?thesis
        proof (cases "e = CHR ''u''")
          case u: True
          from "2.prems" nq True Cons u obtain cp k str' where
            ue: "unicode_escape r' = Some (cp, k)" and
            ss: "scanstring (drop k r') = Some (str', r)"
            by (auto split: option.splits prod.splits)
          from "2.IH"(1) [OF nq True Cons u ue refl ss] have "length r < length (drop k r')" .
          with Cons show ?thesis by simp
        next
          case nu: False
          from "2.prems" nq True Cons nu obtain ch str' where
            bs: "backslash e = Some ch" and ss: "scanstring r' = Some (str', r)"
            by (auto split: option.splits prod.splits)
          from "2.IH"(2) [OF nq True Cons nu bs ss] Cons show ?thesis by simp
        qed
      qed
    next
      case nb: False
      show ?thesis
      proof (cases "(of_char c :: nat) < 0x20")
        case True
        with "2.prems" nq nb show ?thesis by simp
      next
        case False
        with "2.prems" nq nb obtain str' where ss: "scanstring cs = Some (str', r)"
          by (auto split: option.splits prod.splits)
        from "2.IH"(3) [OF nq nb False ss] show ?thesis by simp
      qed
    qed
  qed
qed

lemma scan_int_shorter:
  assumes "scan_int s = (ip, r)"
  shows "length r \<le> length s \<and> (ip \<noteq> [] \<longrightarrow> length r < length s)"
proof (cases s)
  case Nil
  with assms show ?thesis by (auto simp: scan_int_def split: if_splits)
next
  case (Cons a list)
  have "length (dropWhile is_digit list) \<le> length list" by (rule length_dropWhile_le)
  then show ?thesis
    using Cons assms by (auto simp: scan_int_def split: if_splits)
qed

lemma scan_frac_shorter: "scan_frac s = (fr, r) \<Longrightarrow> length r \<le> length s"
  by (auto simp: scan_frac_def split: if_splits
           intro: order_trans [OF length_dropWhile_le])

lemma scan_exp_shorter: "scan_exp s = (eneg, ex, r) \<Longrightarrow> length r \<le> length s"
  by (auto simp: scan_exp_def Let_def split: if_splits
           intro: order_trans [OF length_dropWhile_le])

lemma match_number_shorter:
  assumes "match_number s = Some (v, r)"
  shows "length r < length s"
proof -
  obtain ip s2 where i: "scan_int (if take 1 s = ''-'' then drop 1 s else s) = (ip, s2)"
    by (cases "scan_int (if take 1 s = ''-'' then drop 1 s else s)")
  obtain fr s3 where f: "scan_frac s2 = (fr, s3)" by (cases "scan_frac s2")
  obtain eneg ex rest where x: "scan_exp s3 = (eneg, ex, rest)" by (cases "scan_exp s3")
  from assms i f x have ip: "ip \<noteq> []" and r: "r = rest"
    by (simp_all add: match_number_def split: if_splits)
  from scan_int_shorter [OF i] ip have "length s2 < length s"
    by (auto split: if_splits)
  moreover from scan_frac_shorter [OF f] have "length s3 \<le> length s2" .
  moreover from scan_exp_shorter [OF x] have "length rest \<le> length s3" .
  ultimately show ?thesis using r by simp
qed

lemma skip_ws_le: "length (skip_ws s) \<le> length s"
  by (simp add: skip_ws_def length_dropWhile_le)

lemma drop1_skip_ws: "take 1 (skip_ws r) = [c] \<Longrightarrow> length (drop 1 (skip_ws r)) < Suc (length r)"
  using skip_ws_le [of r] by simp

lemma take_eq_length: "take n s = t \<Longrightarrow> length t = n \<Longrightarrow> 0 < n \<Longrightarrow> length (drop n s) < length s"
  by (cases "n \<le> length s") auto

lemma scan_okI:
  "res \<noteq> Exhausted \<Longrightarrow> (\<And>v r. res = Scanned v r \<Longrightarrow> length r < length s) \<Longrightarrow> scan_ok res s"
  by (cases res) (simp_all add: scan_ok_def)

lemma scan_ok_Scanned: "scan_ok (Scanned v r) s = (length r < length s)"
  and scan_ok_Invalid: "scan_ok Invalid s"
  and scan_ok_Exhausted: "\<not> scan_ok Exhausted s"
  by (simp_all add: scan_ok_def)

lemma scan_ok_mono: "scan_ok res s \<Longrightarrow> length s \<le> length s' \<Longrightarrow> scan_ok res s'"
  by (cases res) (simp_all add: scan_ok_def)

declare scan_once.simps [simp del] parse_array.simps [simp del] parse_object.simps [simp del]

lemma scan_atom_ok: "s \<noteq> [] \<Longrightarrow> scan_ok (scan_atom s) s"
  by (auto simp: scan_atom_def scan_ok_def split: option.splits dest: match_number_shorter)

lemma scan_once_step:
  assumes IH2: "\<And>acc s. 2 * length s + 1 < n \<Longrightarrow> scan_ok (parse_array n acc s) s"
    and IH3: "\<And>acc s. 2 * length s + 1 < n \<Longrightarrow> scan_ok (parse_object n acc s) s"
    and n: "2 * length s < Suc n"
  shows "scan_ok (scan_once (Suc n) s) s"
proof (cases s)
  case Nil
  then show ?thesis by (simp add: scan_once.simps scan_ok_Invalid)
next
  case (Cons c r)
  have le: "length (skip_ws r) \<le> length r" by (rule skip_ws_le)
  consider (str) "c = CHR 0x22" | (obj) "c = CHR ''{''" | (arr) "c = CHR ''[''"
    | (atom) "c \<noteq> CHR 0x22" "c \<noteq> CHR ''{''" "c \<noteq> CHR ''[''"
    by blast
  then show ?thesis
  proof cases
    case str
    have "scan_once (Suc n) s
          = (case scanstring r of None \<Rightarrow> Invalid | Some (str, r') \<Rightarrow> Scanned (PyStr str) r')"
      by (simp add: scan_once.simps Cons str)
    moreover have "length r' < length s" if "scanstring r = Some (str, r')" for str r'
      using scanstring_shorter [OF that] Cons by simp
    ultimately show ?thesis
      by (cases "scanstring r") (auto simp: scan_ok_Invalid scan_ok_Scanned)
  next
    case obj
    have eq: "scan_once (Suc n) s
          = (if take 1 (skip_ws r) = ''}'' then Scanned (PyDict []) (drop 1 (skip_ws r))
             else parse_object n [] (skip_ws r))"
      by (simp add: scan_once.simps Cons obj)
    have "scan_ok (parse_object n [] (skip_ws r)) (skip_ws r)"
      using n Cons le by (intro IH3) simp
    then have "scan_ok (parse_object n [] (skip_ws r)) s"
      using le Cons by (auto intro: scan_ok_mono)
    moreover have "length (drop 1 (skip_ws r)) < length s" using le Cons by simp
    ultimately show ?thesis unfolding eq by (simp add: scan_ok_Scanned)
  next
    case arr
    have eq: "scan_once (Suc n) s
          = (if take 1 (skip_ws r) = '']'' then Scanned (PyList []) (drop 1 (skip_ws r))
             else parse_array n [] (skip_ws r))"
      by (simp add: scan_once.simps Cons arr)
    have "scan_ok (parse_array n [] (skip_ws r)) (skip_ws r)"
      using n Cons le by (intro IH2) simp
    then have "scan_ok (parse_array n [] (skip_ws r)) s"
      using le Cons by (auto intro: scan_ok_mono)
    moreover have "length (drop 1 (skip_ws r)) < length s" using le Cons by simp
    ultimately show ?thesis unfolding eq by (simp add: scan_ok_Scanned)
  next
    case atom
    have "scan_once (Suc n) (c # r) = scan_atom (c # r)"
      by (simp add: scan_once.simps atom)
    then show ?thesis
      using scan_atom_ok [of "c # r"] by (simp add: Cons)
  qed
qed

lemma parse_array_step:
  assumes IH1: "\<And>s. 2 * length s < n \<Longrightarrow> scan_ok (scan_once n s) s"
    and IH2: "\<And>acc s. 2 * length s + 1 < n \<Longrightarrow> scan_ok (parse_array n acc s) s"
    and n: "2 * length s + 1 < Suc n"
  shows "scan_ok (parse_array (Suc n) acc s) s"
proof -
  from n have ok: "scan_ok (scan_once n s) s" by (intro IH1) simp
  show ?thesis
  proof (cases "scan_once n s")
    case (Scanned v r)
    with ok have lr: "length r < length s" by (simp add: scan_ok_Scanned)
    show ?thesis
    proof (cases "skip_ws r")
      case Nil
      with Scanned show ?thesis by (simp add: parse_array.simps scan_ok_Invalid)
    next
      case (Cons c r')
      with skip_ws_le [of r] have lr': "length r' < length r" by simp
      have "length (skip_ws r') \<le> length r'" by (rule skip_ws_le)
      with lr lr' n have "scan_ok (parse_array n (acc @ [v]) (skip_ws r')) (skip_ws r')"
        by (intro IH2) simp
      then have "scan_ok (parse_array n (acc @ [v]) (skip_ws r')) s"
      using lr lr' skip_ws_le [of r'] by (auto intro: scan_ok_mono)
      with Scanned Cons lr lr' show ?thesis
        by (simp add: parse_array.simps scan_ok_Scanned scan_ok_Invalid)
    qed
  next
    case Invalid
    then show ?thesis by (simp add: parse_array.simps scan_ok_Invalid)
  next
    case Exhausted
    with ok show ?thesis by (simp add: scan_ok_Exhausted)
  qed
qed

lemma parse_object_step:
  assumes IH1: "\<And>s. 2 * length s < n \<Longrightarrow> scan_ok (scan_once n s) s"
    and IH3: "\<And>acc s. 2 * length s + 1 < n \<Longrightarrow> scan_ok (parse_object n acc s) s"
    and n: "2 * length s + 1 < Suc n"
  shows "scan_ok (parse_object (Suc n) acc s) s"
proof (cases s)
  case Nil
  then show ?thesis by (simp add: parse_object.simps scan_ok_Invalid)
next
  case (Cons c r)
  show ?thesis
  proof (cases "c \<noteq> CHR 0x22 \<or> scanstring r = None")
    case True
    with Cons show ?thesis by (auto simp: parse_object.simps scan_ok_Invalid)
  next
    case False
    then obtain key r1 where c: "c = CHR 0x22" and ss: "scanstring r = Some (key, r1)"
      by auto
    from scanstring_shorter [OF ss] have l1: "length r1 < length r" .
    show ?thesis
    proof (cases "skip_ws r1")
      case Nil
      with Cons c ss show ?thesis by (simp add: parse_object.simps scan_ok_Invalid)
    next
      case sk: (Cons c1 r2)
      with skip_ws_le [of r1] have l2: "length r2 < length r1" by simp
      show ?thesis
      proof (cases "c1 = CHR '':''")
        case False
        with Cons c ss sk show ?thesis by (simp add: parse_object.simps scan_ok_Invalid)
      next
        case True
        have l3: "length (skip_ws r2) \<le> length r2" by (rule skip_ws_le)
        with n Cons l1 l2 have ok: "scan_ok (scan_once n (skip_ws r2)) (skip_ws r2)"
          by (intro IH1) simp
        show ?thesis
        proof (cases "scan_once n (skip_ws r2)")
          case (Scanned v r3)
          with ok have l4: "length r3 < length (skip_ws r2)" by (simp add: scan_ok_Scanned)
          show ?thesis
          proof (cases "skip_ws r3")
            case Nil
            with Cons c ss sk True Scanned show ?thesis
              by (simp add: parse_object.simps scan_ok_Invalid)
          next
            case s3: (Cons c3 r4)
            with skip_ws_le [of r3] have l5: "length r4 < length r3" by simp
            have "length (skip_ws r4) \<le> length r4" by (rule skip_ws_le)
            with n Cons l1 l2 l3 l4 l5
            have "scan_ok (parse_object n (dict_set acc key v) (skip_ws r4)) (skip_ws r4)"
              by (intro IH3) simp
            then have "scan_ok (parse_object n (dict_set acc key v) (skip_ws r4)) s"
      using Cons l1 l2 l3 l4 l5 skip_ws_le [of r4] by (auto intro: scan_ok_mono)
            moreover have "length r4 < length s" using Cons l1 l2 l3 l4 l5 by simp
            ultimately show ?thesis
              using Cons c ss sk True Scanned s3
              by (simp add: parse_object.simps scan_ok_Scanned scan_ok_Invalid)
          qed
        next
          case Invalid
          with Cons c ss sk True show ?thesis by (simp add: parse_object.simps scan_ok_Invalid)
        next
          case Exhausted
          with ok show ?thesis by (simp add: scan_ok_Exhausted)
        qed
      qed
    qed
  qed
qed

lemma fuel_enough:
  "(\<forall>s. 2 * length s < n \<longrightarrow> scan_ok (scan_once n s) s)
   \<and> (\<forall>acc s. 2 * length s + 1 < n \<longrightarrow> scan_ok (parse_array n acc s) s)
   \<and> (\<forall>acc s. 2 * length s + 1 < n \<longrightarrow> scan_ok (parse_object n acc s) s)"
proof (induction n)
  case 0
  then show ?case by simp
next
  case (Suc n)
  then have IH1: "\<And>s. 2 * length s < n \<Longrightarrow> scan_ok (scan_once n s) s"
    and IH2: "\<And>acc s. 2 * length s + 1 < n \<Longrightarrow> scan_ok (parse_array n acc s) s"
    and IH3: "\<And>acc s. 2 * length s + 1 < n \<Longrightarrow> scan_ok (parse_object n acc s) s"
    by blast+
  show ?case
    using scan_once_step [OF IH2 IH3] parse_array_step [OF IH1 IH2] parse_object_step [OF IH1 IH3]
    by blast
qed

lemma scan_ok_not_exhausted: "scan_ok res s \<Longrightarrow> res \<noteq> Exhausted"
  by (auto simp: scan_ok_def)

lemma json_loads_fuel: "scan_once (Suc (length s + length s)) (skip_ws s) \<noteq> Exhausted"
proof -
  have "2 * length (skip_ws s) < Suc (length s + length s)"
    using skip_ws_le [of s] by simp
  with fuel_enough [of "Suc (length s + length s)"]
  have "scan_ok (scan_once (Suc (length s + length s)) (skip_ws s)) (skip_ws s)" by blast
  then show ?thesis by (rule scan_ok_not_exhausted)
qed

text \<open>So \<open>json_loads\<close> gives \<open>None\<close> only for a text that is not one JSON value: the
  scan is invalid, or text other than white space follows the value.\<close>

lemma json_loads_None:
  assumes "json_loads s = None"
  shows "scan_once (Suc (length s + length s)) (skip_ws s) = Invalid
         \<or> (\<exists>v r. scan_once (Suc (length s + length s)) (skip_ws s) = Scanned v r
                   \<and> skip_ws r \<noteq> [])"
  using assms json_loads_fuel [of s]
  by (cases "scan_once (Suc (length s + length s)) (skip_ws s)")
     (auto simp: json_loads_def split: if_splits)


section \<open>Lemmas about the extractor\<close>

lemma anywhere_str: "extract_json_anywhere loads (PyStr s) = Inr (salvage_parse loads s)"
  by (simp add: extract_json_anywhere_def salvage_parse_def py_or_def Let_def split: option.splits)

lemma py_strip_empty: "py_strip [] = []"
  by (simp add: py_strip_def)

lemma anywhere_falsy: "\<not> truthy x \<Longrightarrow> extract_json_anywhere loads x = Inr PyNone"
  by (simp add: extract_json_anywhere_def py_or_def py_strip_empty)

lemma salvage_parse_empty: "salvage_parse loads [] = PyNone"
  by (simp add: salvage_parse_def py_strip_empty)

lemma anywhere_truthy:
  assumes "extract_json_anywhere loads x = Inr v" and "truthy v"
  shows "\<exists>s. x = PyStr s \<and> v = salvage_parse loads s"
proof (cases "truthy x")
  case False
  with assms show ?thesis by (simp add: anywhere_falsy)
next
  case True
  show ?thesis
  proof (cases x)
    case (PyStr s)
    with assms(1) show ?thesis by (simp add: anywhere_str)
  qed (use True assms(1) in \<open>simp_all add: extract_json_anywhere_def py_or_def\<close>)
qed

lemma not_yields_parse: "\<not> yields_parse loads s \<Longrightarrow> salvage_parse loads s = PyNone"
  by (auto simp: yields_parse_def salvage_parse_def Let_def split: option.splits)

lemma scan_values_find:
  "scan_values loads vs = Inr (find truthy (map (salvage_parse loads) (str_values vs)))"
  by (induction vs rule: str_values.induct) (simp_all add: anywhere_str)

lemma find_append:
  "find P (xs @ ys) = (case find P xs of Some x \<Rightarrow> Some x | None \<Rightarrow> find P ys)"
  by (induction xs) simp_all


lemma scan_nodes_step:
  "scan_nodes loads (node # rest) =
     (case node_output node of
        Inl e \<Rightarrow> Inl e
      | Inr None \<Rightarrow> scan_nodes loads rest
      | Inr (Some out) \<Rightarrow>
          (case extract_json_anywhere loads (dict_get out ''content'' (PyStr [])) of
             Inl e \<Rightarrow> Inl e
           | Inr parsed \<Rightarrow>
               if truthy parsed then Inr parsed
               else (case scan_values loads (dict_values out) of
                       Inl e \<Rightarrow> Inl e
                     | Inr (Some parsed') \<Rightarrow> Inr parsed'
                     | Inr None \<Rightarrow> scan_nodes loads rest)))"
  by (simp add: node_output_def split: pyval.split)

text \<open>One trace entry with an output mapping: either the content raises, or the entry
  gives the first true result among its strings, or the scan goes on.\<close>

lemma output_step:
  "(case extract_json_anywhere loads (dict_get out ''content'' (PyStr [])) of
      Inl e \<Rightarrow> Inl e
    | Inr parsed \<Rightarrow>
        if truthy parsed then Inr parsed
        else (case scan_values loads (dict_values out) of
                Inl e \<Rightarrow> Inl e
              | Inr (Some parsed') \<Rightarrow> Inr parsed'
              | Inr None \<Rightarrow> k))
   = (case py_or (dict_get out ''content'' (PyStr [])) (PyStr []) of
        PyStr s \<Rightarrow>
          (case find truthy (map (salvage_parse loads) (output_strings out)) of
             Some v \<Rightarrow> Inr v | None \<Rightarrow> k)
      | other \<Rightarrow> Inl (no_attribute other ''strip''))"
proof (cases "truthy (dict_get out ''content'' (PyStr []))")
  case True
  show ?thesis
  proof (cases "dict_get out ''content'' (PyStr [])")
    case (PyStr s)
    then show ?thesis
      by (simp add: py_or_def anywhere_str output_strings_def scan_values_find find_append
             split: option.split)
  qed (use True in \<open>simp_all add: py_or_def extract_json_anywhere_def\<close>)
next
  case False
  then have a: "extract_json_anywhere loads (dict_get out ''content'' (PyStr [])) = Inr PyNone"
    by (rule anywhere_falsy)
  have "find truthy (map (salvage_parse loads)
          (case dict_get out ''content'' (PyStr []) of PyStr s \<Rightarrow> [s] | _ \<Rightarrow> [])) = None"
    using False by (cases "dict_get out ''content'' (PyStr [])") (simp_all add: salvage_parse_empty)
  then show ?thesis
    using False
    by (simp add: a py_or_def output_strings_def scan_values_find find_append split: option.split)
qed

lemmas scan_nodes_unfold = scan_nodes_step [unfolded output_step]

lemma scan_nodes_find:
  "\<forall>node \<in> set nodes. wf_node node \<Longrightarrow>
   scan_nodes loads nodes =
     (case find truthy (map (salvage_parse loads) (concat (map node_strings nodes))) of
        Some v \<Rightarrow> Inr v
      | None \<Rightarrow> Inl (RuntimeError no_json_message))"
proof (induction nodes)
  case Nil
  then show ?case by simp
next
  case (Cons node rest)
  then have wf: "wf_node node" and IH: "scan_nodes loads rest =
     (case find truthy (map (salvage_parse loads) (concat (map node_strings rest))) of
        Some v \<Rightarrow> Inr v
      | None \<Rightarrow> Inl (RuntimeError no_json_message))" by simp_all
  show ?case
  proof (cases "node_output node")
    case (Inl e)
    with wf show ?thesis by (simp add: wf_node_def)
  next
    case (Inr oo)
    show ?thesis
    proof (cases oo)
      case None
      with Inr have "node_strings node = []"
        by (simp add: node_strings_def)
      with Inr None show ?thesis
        by (simp add: scan_nodes_unfold IH del: scan_nodes.simps)
    next
      case (Some out)
      with Inr wf obtain s where
        c: "py_or (dict_get out ''content'' (PyStr [])) (PyStr []) = PyStr s"
        by (auto simp: wf_node_def split: pyval.splits)
      from Inr Some have ns: "node_strings node = output_strings out"
        by (simp add: node_strings_def)
      show ?thesis
        by (simp add: scan_nodes_unfold Inr Some c ns IH find_append
                 split: option.split del: scan_nodes.simps)
    qed
  qed
qed

lemma scan_nodes_sound:
  "scan_nodes loads nodes = Inr v \<Longrightarrow>
   truthy v \<and> v \<in> salvage_parse loads ` set (concat (map node_strings nodes))"
proof (induction nodes)
  case Nil
  then show ?case by simp
next
  case (Cons node rest)
  show ?case
  proof (cases "node_output node")
    case (Inl e)
    with Cons.prems show ?thesis by (simp add: scan_nodes_unfold del: scan_nodes.simps)
  next
    case (Inr oo)
    show ?thesis
    proof (cases oo)
      case None
      with Inr Cons show ?thesis
        by (simp add: scan_nodes_unfold node_strings_def del: scan_nodes.simps)
    next
      case (Some out)
      from Inr Some have ns: "node_strings node = output_strings out"
        by (simp add: node_strings_def)
      show ?thesis
      proof (cases "find truthy (map (salvage_parse loads) (output_strings out))")
        case None
        with Inr Some Cons.prems have "scan_nodes loads rest = Inr v"
          by (simp add: scan_nodes_unfold del: scan_nodes.simps split: pyval.splits)
        from Cons.IH [OF this] show ?thesis by auto
      next
        case (Some w)
        with Inr \<open>oo = Some out\<close> Cons.prems have "w = v"
          by (simp add: scan_nodes_unfold del: scan_nodes.simps split: pyval.splits)
        with Some have "truthy v" "v \<in> set (map (salvage_parse loads) (output_strings out))"
          by (auto simp: find_Some_iff)
        then show ?thesis by (auto simp: ns)
      qed
    qed
  qed
qed


lemma map_of_dict_set:
  "map_of (dict_set d k v) k' = (if k' = k then Some v else map_of d k')"
  by (induction d k v rule: dict_set.induct) auto

lemma scan_trace_nodes:
  "scan_trace loads r = Inr v \<Longrightarrow> scan_nodes loads (trace_nodes r) = Inr v"
  by (simp add: scan_trace_def trace_nodes_def split: pyval.splits)


lemma extract_sound:
  assumes "extract_json_from_flowise_response loads resp = Inr v"
  shows "truthy v \<and> v \<in> salvage_parse loads ` set (probed_strings resp)"
proof (cases resp)
  case (PyDict r)
  show ?thesis
  proof (cases "extract_json_anywhere loads (dict_get r ''text'' (PyStr []))")
    case (Inl e)
    with assms PyDict show ?thesis
      by (simp add: extract_json_from_flowise_response_def)
  next
    case (Inr parsed)
    show ?thesis
    proof (cases "truthy parsed")
      case True
      with assms PyDict Inr have "parsed = v"
        by (simp add: extract_json_from_flowise_response_def)
      with Inr True obtain s where "dict_get r ''text'' (PyStr []) = PyStr s"
        "v = salvage_parse loads s"
        using anywhere_truthy by blast
      with True \<open>parsed = v\<close> PyDict show ?thesis
        by (simp add: probed_strings_def)
    next
      case False
      with assms PyDict Inr have "scan_trace loads r = Inr v"
        by (simp add: extract_json_from_flowise_response_def)
      then have "scan_nodes loads (trace_nodes r) = Inr v"
        by (rule scan_trace_nodes)
      from scan_nodes_sound [OF this] PyDict show ?thesis
        by (auto simp: probed_strings_def)
    qed
  qed
qed (use assms in \<open>simp_all add: extract_json_from_flowise_response_def\<close>)



lemma greedy_to_close_span:
  "CHR ''}'' \<notin> set post \<Longrightarrow> greedy_to_close (body @ CHR ''}'' # post) = body @ [CHR ''}'']"
  by (auto simp: greedy_to_close_def dropWhile_append3)

lemma re_search_braces_span:
  "CHR ''{'' \<notin> set pre \<Longrightarrow> CHR ''}'' \<notin> set post \<Longrightarrow>
   re_search_braces (pre @ CHR ''{'' # body @ CHR ''}'' # post) = Some (CHR ''{'' # body @ [CHR ''}''])"
  by (induction pre) (auto simp: greedy_to_close_span)

section \<open>The claims about the extractor\<close>

text \<open>
  C1, as amended. When the top-level text is a string whose trimmed content is not empty and
  parses directly to a true value, the extractor returns exactly that value, whatever else
  the response holds: the result is the same for every value put under
  \<^verbatim>\<open>agentFlowExecutedData\<close>, so the execution trace is not consulted.
\<close>

theorem direct_parse_returned:
  assumes "map_of r ''text'' = Some (PyStr s)"
    and "py_strip s \<noteq> []"
    and "loads (py_strip s) = Some v"
    and "truthy v"
  shows "extract_json_from_flowise_response loads (PyDict r) = Inr v
         \<and> (\<forall>x. extract_json_from_flowise_response loads
                   (PyDict (dict_set r ''agentFlowExecutedData'' x)) = Inr v)"
proof -
  have p: "salvage_parse loads s = v"
    using assms(2,3) by (simp add: salvage_parse_def)
  have "extract_json_from_flowise_response loads (PyDict r') = Inr v"
    if "map_of r' ''text'' = Some (PyStr s)" for r'
    using that assms(4)
    by (simp add: extract_json_from_flowise_response_def dict_get_def anywhere_str p)
  then show ?thesis
    using assms(1) by (simp add: map_of_dict_set)
qed

theorem direct_parse_returned_witness:
  \<open>map_of [(''text'', PyStr '' {"a": 1} ''),
            (''agentFlowExecutedData'',
             PyList [PyDict [(''data'', PyDict [(''output'', PyDict [(''content'', PyStr ''{"b": 2}'')])])]])]
      ''text'' = Some (PyStr '' {"a": 1} '')
   \<and> py_strip '' {"a": 1} '' \<noteq> []
   \<and> json_loads (py_strip '' {"a": 1} '') = Some (PyDict [(''a'', PyInt 1)])
   \<and> truthy (PyDict [(''a'', PyInt 1)])
   \<and> extract_json_from_flowise_response json_loads
        (PyDict [(''text'', PyStr '' {"a": 1} ''),
            (''agentFlowExecutedData'',
             PyList [PyDict [(''data'', PyDict [(''output'', PyDict [(''content'', PyStr ''{"b": 2}'')])])]])])
       = Inr (PyDict [(''a'', PyInt 1)])\<close>
proof -
  have h1: \<open>map_of [(''text'', PyStr '' {"a": 1} ''),
            (''agentFlowExecutedData'',
             PyList [PyDict [(''data'', PyDict [(''output'', PyDict [(''content'', PyStr ''{"b": 2}'')])])]])]
      ''text'' = Some (PyStr '' {"a": 1} '')\<close> by simp
  have h2: \<open>py_strip '' {"a": 1} '' \<noteq> []\<close> by code_simp
  have h3: \<open>json_loads (py_strip '' {"a": 1} '') = Some (PyDict [(''a'', PyInt 1)])\<close> by code_simp
  have h4: "truthy (PyDict [(''a'', PyInt 1)])" by simp
  from direct_parse_returned [where loads = json_loads, OF h1 h2 h3 h4] h1 h2 h3 h4
  show ?thesis by blast
qed

theorem direct_parse_counterexample:
  \<open>json_loads (py_strip ''{}'') = Some (PyDict [])
   \<and> extract_json_from_flowise_response json_loads (PyDict [(''text'', PyStr ''{}'')])
       = Inl (RuntimeError no_json_message)
   \<and> extract_json_from_flowise_response json_loads
        (PyDict [(''text'', PyStr ''{}''),
            (''agentFlowExecutedData'',
             PyList [PyDict [(''data'', PyDict [(''output'', PyDict [(''content'', PyStr ''{"b": 2}'')])])]])])
       = Inr (PyDict [(''b'', PyInt 2)])\<close>
  by code_simp

text \<open>
  C4, as amended. When the trimmed text does not parse directly, the extractor tries one
  span only, the one from the first opening brace to the last closing brace of the trimmed
  text: it returns the parse of that span, and \<^verbatim>\<open>None\<close> when that span does not parse.
\<close>

theorem salvage_single_span:
  assumes "py_strip s = pre @ CHR ''{'' # body @ CHR ''}'' # post"
    and "CHR ''{'' \<notin> set pre"
    and "CHR ''}'' \<notin> set post"
    and "loads (py_strip s) = None"
  shows "extract_json_anywhere loads (PyStr s)
         = Inr (case loads (CHR ''{'' # body @ [CHR ''}'']) of Some v \<Rightarrow> v | None \<Rightarrow> PyNone)"
proof -
  have "re_search_braces (py_strip s) = Some (CHR ''{'' # body @ [CHR ''}''])"
    unfolding assms(1) using assms(2,3) by (rule re_search_braces_span)
  with assms(1,4) show ?thesis
    by (simp add: anywhere_str salvage_parse_def split: option.split)
qed

theorem salvage_single_span_witness:
  \<open>py_strip ''Sure! Here is the answer: {"urgency_level":"Emergency","recommended_authority":"SCDF"} ''
     = ''Sure! Here is the answer: '' @ CHR ''{'' # ''"urgency_level":"Emergency","recommended_authority":"SCDF"'' @ CHR ''}'' # []
   \<and> CHR ''{'' \<notin> set ''Sure! Here is the answer: ''
   \<and> CHR ''}'' \<notin> set []
   \<and> json_loads (py_strip ''Sure! Here is the answer: {"urgency_level":"Emergency","recommended_authority":"SCDF"} '') = None
   \<and> extract_json_anywhere json_loads
        (PyStr ''Sure! Here is the answer: {"urgency_level":"Emergency","recommended_authority":"SCDF"} '')
       = Inr (PyDict [(''urgency_level'', PyStr ''Emergency''), (''recommended_authority'', PyStr ''SCDF'')])\<close>
proof -
  have h1: \<open>py_strip ''Sure! Here is the answer: {"urgency_level":"Emergency","recommended_authority":"SCDF"} ''
     = ''Sure! Here is the answer: '' @ CHR ''{'' # ''"urgency_level":"Emergency","recommended_authority":"SCDF"'' @ CHR ''}'' # []\<close>
    by code_simp
  have h2: "CHR ''{'' \<notin> set ''Sure! Here is the answer: ''" by simp
  have h3: "CHR ''}'' \<notin> set []" by simp
  have h4: \<open>json_loads (py_strip ''Sure! Here is the answer: {"urgency_level":"Emergency","recommended_authority":"SCDF"} '') = None\<close>
    by code_simp
  have h5: \<open>json_loads (CHR ''{'' # ''"urgency_level":"Emergency","recommended_authority":"SCDF"'' @ [CHR ''}''])
     = Some (PyDict [(''urgency_level'', PyStr ''Emergency''), (''recommended_authority'', PyStr ''SCDF'')])\<close>
    by code_simp
  from salvage_single_span [where loads = json_loads, OF h1 h2 h3 h4] h1 h2 h3 h4 h5
  show ?thesis by simp
qed

theorem first_parsing_span_counterexample:
  \<open>json_loads (py_strip ''Answer: {"urgency_level": "High"} (see {notes})'') = None
   \<and> ''Answer: {"urgency_level": "High"} (see {notes})''
       = ''Answer: '' @ ''{"urgency_level": "High"}'' @ '' (see {notes})''
   \<and> json_loads ''{"urgency_level": "High"}'' = Some (PyDict [(''urgency_level'', PyStr ''High'')])
   \<and> extract_json_anywhere json_loads (PyStr ''Answer: {"urgency_level": "High"} (see {notes})'')
       = Inr PyNone\<close>
  by code_simp

text \<open>
  C3, as amended. When the top-level text yields no true value and the response carries an
  execution-trace list of well-formed entries, the extractor goes through the entries from
  the last to the first; in each entry it applies the parse-then-salvage strategy to the
  \<^verbatim>\<open>content\<close> string of the output, then to every string among the values of the output
  mapping in the order of the mapping, and it returns the first true result met in that
  order; with no true result it raises \<^verbatim>\<open>RuntimeError\<close>.
\<close>

theorem trace_scan_order:
  assumes "extract_json_anywhere loads (dict_get r ''text'' (PyStr [])) = Inr p"
    and "\<not> truthy p"
    and "map_of r ''agentFlowExecutedData'' = Some (PyList executed)"
    and "\<forall>node \<in> set executed. wf_node node"
  shows "extract_json_from_flowise_response loads (PyDict r)
         = (case find truthy (map (salvage_parse loads)
                                 (concat (map node_strings (rev executed)))) of
              Some v \<Rightarrow> Inr v
            | None \<Rightarrow> Inl (RuntimeError no_json_message))"
proof -
  have "scan_trace loads r = scan_nodes loads (rev executed)"
    using assms(3) by (cases executed) (simp_all add: scan_trace_def dict_get_def py_or_def)
  moreover have "\<forall>node \<in> set (rev executed). wf_node node"
    using assms(4) by simp
  ultimately show ?thesis
    using assms(1,2) by (simp add: extract_json_from_flowise_response_def scan_nodes_find)
qed

theorem trace_scan_order_witness:
  \<open>extract_json_anywhere json_loads
      (dict_get [(''text'', PyStr ''no json here''),
                 (''agentFlowExecutedData'',
                  PyList [PyDict [(''data'', PyDict [(''output'', PyDict [(''content'', PyStr ''{"step": 1}'')])])],
                          PyDict [(''data'', PyDict [(''output'',
                             PyDict [(''content'', PyStr ''[]''), (''result'', PyStr ''{"step": 2}'')])])]])]
         ''text'' (PyStr [])) = Inr PyNone
   \<and> \<not> truthy PyNone
   \<and> list_all wf_node
         [PyDict [(''data'', PyDict [(''output'', PyDict [(''content'', PyStr ''{"step": 1}'')])])],
          PyDict [(''data'', PyDict [(''output'',
             PyDict [(''content'', PyStr ''[]''), (''result'', PyStr ''{"step": 2}'')])])]]
   \<and> extract_json_from_flowise_response json_loads
        (PyDict [(''text'', PyStr ''no json here''),
                 (''agentFlowExecutedData'',
                  PyList [PyDict [(''data'', PyDict [(''output'', PyDict [(''content'', PyStr ''{"step": 1}'')])])],
                          PyDict [(''data'', PyDict [(''output'',
                             PyDict [(''content'', PyStr ''[]''), (''result'', PyStr ''{"step": 2}'')])])]])])
       = Inr (PyDict [(''step'', PyInt 2)])\<close>
proof -
  let ?n1 = \<open>PyDict [(''data'', PyDict [(''output'', PyDict [(''content'', PyStr ''{"step": 1}'')])])]\<close>
  let ?n2 = \<open>PyDict [(''data'', PyDict [(''output'',
                        PyDict [(''content'', PyStr ''[]''), (''result'', PyStr ''{"step": 2}'')])])]\<close>
  let ?r = \<open>[(''text'', PyStr ''no json here''), (''agentFlowExecutedData'', PyList [?n1, ?n2])]\<close>
  have h1: "extract_json_anywhere json_loads (dict_get ?r ''text'' (PyStr [])) = Inr PyNone"
    by code_simp
  have h2: "\<not> truthy PyNone" by simp
  have h3: "map_of ?r ''agentFlowExecutedData'' = Some (PyList [?n1, ?n2])" by simp
  have h4: "\<forall>node \<in> set [?n1, ?n2]. wf_node node" by code_simp
  have h5: "(case find truthy (map (salvage_parse json_loads)
                                 (concat (map node_strings (rev [?n1, ?n2])))) of
              Some v \<Rightarrow> Inr v
            | None \<Rightarrow> Inl (RuntimeError no_json_message)) = (Inr (PyDict [(''step'', PyInt 2)]) :: py_error + pyval)"
    by code_simp
  from trace_scan_order [where loads = json_loads, OF h1 h2 h3 h4] h1 h2 h4 h5
  show ?thesis by (simp add: list_all_iff)
qed

theorem first_successful_parse_counterexample:
  \<open>json_loads ''[]'' = Some (PyList [])
   \<and> output_strings [(''content'', PyStr ''[]''), (''result'', PyStr ''{"step": 2}'')]
       = [''[]'', ''[]'', ''{"step": 2}'']
   \<and> extract_json_from_flowise_response json_loads
        (PyDict [(''text'', PyStr ''no json here''),
                 (''agentFlowExecutedData'',
                  PyList [PyDict [(''data'', PyDict [(''output'',
                             PyDict [(''content'', PyStr ''[]''), (''result'', PyStr ''{"step": 2}'')])])]])])
       = Inr (PyDict [(''step'', PyInt 2)])\<close>
  by code_simp



text \<open>
  C10. The extractor can return a value that is not a mapping: a top-level text that
  parses to an array or to a string, both true, is returned as it is.
\<close>

theorem non_mapping_returned:
  \<open>extract_json_from_flowise_response json_loads (PyDict [(''text'', PyStr ''[1, 2]'')])
     = Inr (PyList [PyInt 1, PyInt 2])
   \<and> extract_json_from_flowise_response json_loads (PyDict [(''text'', PyStr ''"hello"'')])
     = Inr (PyStr ''hello'')
   \<and> (\<forall>d. PyList [PyInt 1, PyInt 2] \<noteq> PyDict d \<and> PyStr ''hello'' \<noteq> PyDict d)\<close>
proof -
  have \<open>extract_json_from_flowise_response json_loads (PyDict [(''text'', PyStr ''[1, 2]'')])
     = Inr (PyList [PyInt 1, PyInt 2])\<close> by code_simp
  moreover have \<open>extract_json_from_flowise_response json_loads (PyDict [(''text'', PyStr ''"hello"'')])
     = Inr (PyStr ''hello'')\<close> by code_simp
  ultimately show ?thesis by simp
qed

section \<open>The claims about the transport client, the renderer and the handlers\<close>

lemma call_flowise_sent:
  "fst (call_flowise cfg session_sid loads post question extra)
   = (if chatflow_id cfg = [] then []
      else [\<lparr>req_url = base_url cfg @ ''/api/v1/prediction/'' @ chatflow_id cfg,
             req_json = [(''question'', PyStr question), (''sessionId'', PyStr session_sid)]
                        @ (case extra of
                             Some e \<Rightarrow> if e \<noteq> [] then [(''overrideConfig'', PyDict e)] else []
                           | None \<Rightarrow> []),
             req_headers = [(''Content-Type'', ''application/json'')]
                        @ (if api_key cfg \<noteq> [] then [(''Authorization'', ''Bearer '' @ api_key cfg)]
                           else []),
             req_timeout = 180\<rparr>])"
  by (simp add: call_flowise_def Let_def split: option.split)

text \<open>
  C7, as amended. Whenever a flow id is configured, for every question string and every
  optional overrides mapping, \<^verbatim>\<open>call_flowise\<close> sends exactly one HTTP POST, to
  \<^verbatim>\<open><base>/api/v1/prediction/<flow id>\<close>, with the JSON body \<^verbatim>\<open>{question, sessionId}\<close> plus
  \<^verbatim>\<open>overrideConfig\<close> exactly when a non-empty overrides mapping is supplied, with a timeout
  of 180 seconds, and with the \<^verbatim>\<open>Content-Type\<close> header plus an \<^verbatim>\<open>Authorization: Bearer\<close>
  header exactly when an API key is configured. With no flow id it sends nothing and raises.
\<close>

theorem call_flowise_request:
  "(chatflow_id cfg \<noteq> [] \<longrightarrow>
      fst (call_flowise cfg session_sid loads post question extra)
      = [\<lparr>req_url = base_url cfg @ ''/api/v1/prediction/'' @ chatflow_id cfg,
           req_json = [(''question'', PyStr question), (''sessionId'', PyStr session_sid)]
                      @ (case extra of
                           Some e \<Rightarrow> if e \<noteq> [] then [(''overrideConfig'', PyDict e)] else []
                         | None \<Rightarrow> []),
           req_headers = [(''Content-Type'', ''application/json'')]
                      @ (if api_key cfg \<noteq> [] then [(''Authorization'', ''Bearer '' @ api_key cfg)]
                         else []),
           req_timeout = 180\<rparr>])
   \<and> (chatflow_id cfg = [] \<longrightarrow>
      call_flowise cfg session_sid loads post question extra
      = ([], Inl (RuntimeError ''FLOWISE_CHATFLOW_ID is missing. Add it to .env'')))"
  by (simp add: call_flowise_sent) (simp add: call_flowise_def)

theorem call_flowise_request_witness:
  \<open>chatflow_id \<lparr>base_url = ''https://cloud.flowiseai.com'',
                  chatflow_id = ''28bddf08-01dc-4472-aa7f-e6f7e2c0297f'', api_key = ''key''\<rparr> \<noteq> []
   \<and> fst (call_flowise \<lparr>base_url = ''https://cloud.flowiseai.com'',
                  chatflow_id = ''28bddf08-01dc-4472-aa7f-e6f7e2c0297f'', api_key = ''key''\<rparr>
             ''session-1'' json_loads (\<lambda>req. Inl (RequestException ''unreachable''))
             ''Who do I call?'' (Some [(''location'', PyStr ''Bedok'')]))
       = [\<lparr>req_url = ''https://cloud.flowiseai.com/api/v1/prediction/28bddf08-01dc-4472-aa7f-e6f7e2c0297f'',
            req_json = [(''question'', PyStr ''Who do I call?''), (''sessionId'', PyStr ''session-1''),
                        (''overrideConfig'', PyDict [(''location'', PyStr ''Bedok'')])],
            req_headers = [(''Content-Type'', ''application/json''), (''Authorization'', ''Bearer key'')],
            req_timeout = 180\<rparr>]
   \<and> chatflow_id \<lparr>base_url = ''https://cloud.flowiseai.com'', chatflow_id = [], api_key = []\<rparr> = []
   \<and> call_flowise \<lparr>base_url = ''https://cloud.flowiseai.com'', chatflow_id = [], api_key = []\<rparr>
             ''session-1'' json_loads (\<lambda>req. Inl (RequestException ''unreachable''))
             ''Who do I call?'' None
       = ([], Inl (RuntimeError ''FLOWISE_CHATFLOW_ID is missing. Add it to .env''))\<close>
  using call_flowise_request [of \<open>\<lparr>base_url = ''https://cloud.flowiseai.com'',
                  chatflow_id = ''28bddf08-01dc-4472-aa7f-e6f7e2c0297f'', api_key = ''key''\<rparr>\<close>
           \<open>''session-1''\<close> json_loads \<open>\<lambda>req. Inl (RequestException ''unreachable'')\<close>
           \<open>''Who do I call?''\<close> \<open>Some [(''location'', PyStr ''Bedok'')]\<close>]
        call_flowise_request [of \<open>\<lparr>base_url = ''https://cloud.flowiseai.com'', chatflow_id = [], api_key = []\<rparr>\<close>
           \<open>''session-1''\<close> json_loads \<open>\<lambda>req. Inl (RequestException ''unreachable'')\<close>
           \<open>''Who do I call?''\<close> None]
  by simp

theorem call_flowise_counterexample:
  \<open>fst (call_flowise \<lparr>base_url = ''https://cloud.flowiseai.com'', chatflow_id = [], api_key = []\<rparr>
          ''session-1'' json_loads (\<lambda>req. Inl (RequestException ''unreachable''))
          ''Who do I call?'' None) = []
   \<and> map (\<lambda>q. map fst (req_json q))
        (fst (call_flowise \<lparr>base_url = ''https://cloud.flowiseai.com'',
                  chatflow_id = ''28bddf08-01dc-4472-aa7f-e6f7e2c0297f'', api_key = []\<rparr>
          ''session-1'' json_loads (\<lambda>req. Inl (RequestException ''unreachable''))
          ''Who do I call?'' (Some [])))
       = [[''question'', ''sessionId'']]\<close>
  by (simp add: call_flowise_def)

lemma render_decision_dict:
  \<open>render_decision pystr (PyDict d) shown =
     Inr (PyDict d,
          shown
          @ [St_markdown
               (html_block (pill_class_of (dict_get d ''urgency_level'' (PyStr ''Normal'')))
                  (fmt pystr (dict_get d ''urgency_level'' (PyStr ''Normal'')))
                  (fmt pystr (dict_get d ''recommended_authority'' (PyStr ''Other'')))
                  (if truthy (dict_get d ''assessment'' (PyStr []))
                   then fmt pystr (dict_get d ''assessment'' (PyStr []))
                   else ''<span class='small'>(No assessment)</span>'')
                  (if truthy (dict_get d ''recommended_authority_details'' (PyStr []))
                   then fmt pystr (dict_get d ''recommended_authority_details'' (PyStr []))
                   else ''<span class='small'>(Not enough info)</span>'')) True]
          @ (if nonempty_list (dict_get d ''next_steps'' (PyList []))
             then [St_markdown (bullets pystr (dict_get d ''next_steps'' (PyList []))) False] else [])
          @ [St_markdown ''**What details to prepare**'' False]
          @ (if nonempty_list (dict_get d ''details_to_prepare'' (PyList []))
             then [St_markdown (bullets pystr (dict_get d ''details_to_prepare'' (PyList []))) False]
             else [])
          @ (if nonempty_list (dict_get d ''questions_if_missing'' (PyList []))
             then [St_markdown ''**Quick questions (if needed)**'' False,
                   St_markdown (bullets pystr (dict_get d ''questions_if_missing'' (PyList []))) False]
             else []))\<close>
  by (simp add: render_decision_def Let_def fmt_def)

lemma render_card:
  \<open>\<exists>rest. render_decision pystr (PyDict d) shown =
     Inr (PyDict d,
          shown
          @ St_markdown
               (html_block (pill_class_of (dict_get d ''urgency_level'' (PyStr ''Normal'')))
                  (fmt pystr (dict_get d ''urgency_level'' (PyStr ''Normal'')))
                  (fmt pystr (dict_get d ''recommended_authority'' (PyStr ''Other'')))
                  (if truthy (dict_get d ''assessment'' (PyStr []))
                   then fmt pystr (dict_get d ''assessment'' (PyStr []))
                   else ''<span class='small'>(No assessment)</span>'')
                  (if truthy (dict_get d ''recommended_authority_details'' (PyStr []))
                   then fmt pystr (dict_get d ''recommended_authority_details'' (PyStr []))
                   else ''<span class='small'>(Not enough info)</span>'')) True # rest)\<close>
  unfolding render_decision_dict by simp

lemma html_block_text:
  \<open>html_block pill_class urgency authority assessment_block authority_block =
     ([CHR 0x0A] @ ''    <div class="card">''
       @ [CHR 0x0A] @ ''      <div class="kpi">''
       @ [CHR 0x0A] @ ''        <div class="pill '' @ pill_class @ ''">Urgency: '' @ urgency @ ''</div>''
       @ [CHR 0x0A] @ ''        <div class="pill">Recommended authority: '' @ authority @ ''</div>''
       @ [CHR 0x0A] @ ''      </div>''
       @ [CHR 0x0A] @ ''      <hr/>''
       @ [CHR 0x0A] @ ''      <div class="section-title">Assessment</div>''
       @ [CHR 0x0A] @ ''      '' @ assessment_block
       @ [CHR 0x0A] @ ''      <hr/>''
       @ [CHR 0x0A] @ ''      <div class="section-title">Who to contact</div>''
       @ [CHR 0x0A] @ ''      '' @ authority_block
       @ [CHR 0x0A] @ ''      <hr/>''
       @ [CHR 0x0A] @ ''      <div class="section-title">What to do now</div>''
       @ [CHR 0x0A] @ ''    </div>''
       @ [CHR 0x0A] @ ''    '')\<close>
  by (simp add: html_block_def nl_def)



text \<open>
  C8. On every mapping \<^verbatim>\<open>render_decision\<close> returns without raising and leaves the mapping
  as it was. When \<^verbatim>\<open>next_steps\<close> is absent or an empty list, no bulleted list follows the
  card: the next thing shown is the heading of the details. When the assessment or the
  authority details are absent or false, the text of the card that is shown has the
  placeholder in their place, under the title of the section: \<^verbatim>\<open>(No assessment)\<close> under
  \<^verbatim>\<open>Assessment\<close>, \<^verbatim>\<open>(Not enough info)\<close> under \<^verbatim>\<open>Who to contact\<close>.
\<close>

theorem render_total_and_pure:
  \<open>(\<exists>out. render_decision pystr (PyDict d) shown = Inr (PyDict d, out))
   \<and> (map_of d ''next_steps'' = None \<or> map_of d ''next_steps'' = Some (PyList []) \<longrightarrow>
        (\<exists>card rest. render_decision pystr (PyDict d) shown =
           Inr (PyDict d, shown @ [St_markdown card True,
                                   St_markdown ''**What details to prepare**'' False] @ rest)))
   \<and> (\<not> truthy (dict_get d ''assessment'' (PyStr [])) \<longrightarrow>
        (\<exists>pill_class urgency authority authority_block rest.
           render_decision pystr (PyDict d) shown =
             Inr (PyDict d, shown @ St_markdown
                  ([CHR 0x0A] @ ''    <div class="card">''
                     @ [CHR 0x0A] @ ''      <div class="kpi">''
                     @ [CHR 0x0A] @ ''        <div class="pill '' @ pill_class @ ''">Urgency: '' @ urgency @ ''</div>''
                     @ [CHR 0x0A] @ ''        <div class="pill">Recommended authority: '' @ authority @ ''</div>''
                     @ [CHR 0x0A] @ ''      </div>''
                     @ [CHR 0x0A] @ ''      <hr/>''
                     @ [CHR 0x0A] @ ''      <div class="section-title">Assessment</div>''
                     @ [CHR 0x0A] @ ''      '' @ ''<span class='small'>(No assessment)</span>''
                     @ [CHR 0x0A] @ ''      <hr/>''
                     @ [CHR 0x0A] @ ''      <div class="section-title">Who to contact</div>''
                     @ [CHR 0x0A] @ ''      '' @ authority_block
                     @ [CHR 0x0A] @ ''      <hr/>''
                     @ [CHR 0x0A] @ ''      <div class="section-title">What to do now</div>''
                     @ [CHR 0x0A] @ ''    </div>''
                     @ [CHR 0x0A] @ ''    '') True # rest)))
   \<and> (\<not> truthy (dict_get d ''recommended_authority_details'' (PyStr [])) \<longrightarrow>
        (\<exists>pill_class urgency authority assessment_block rest.
           render_decision pystr (PyDict d) shown =
             Inr (PyDict d, shown @ St_markdown
                  ([CHR 0x0A] @ ''    <div class="card">''
                     @ [CHR 0x0A] @ ''      <div class="kpi">''
                     @ [CHR 0x0A] @ ''        <div class="pill '' @ pill_class @ ''">Urgency: '' @ urgency @ ''</div>''
                     @ [CHR 0x0A] @ ''        <div class="pill">Recommended authority: '' @ authority @ ''</div>''
                     @ [CHR 0x0A] @ ''      </div>''
                     @ [CHR 0x0A] @ ''      <hr/>''
                     @ [CHR 0x0A] @ ''      <div class="section-title">Assessment</div>''
                     @ [CHR 0x0A] @ ''      '' @ assessment_block
                     @ [CHR 0x0A] @ ''      <hr/>''
                     @ [CHR 0x0A] @ ''      <div class="section-title">Who to contact</div>''
                     @ [CHR 0x0A] @ ''      '' @ ''<span class='small'>(Not enough info)</span>''
                     @ [CHR 0x0A] @ ''      <hr/>''
                     @ [CHR 0x0A] @ ''      <div class="section-title">What to do now</div>''
                     @ [CHR 0x0A] @ ''    </div>''
                     @ [CHR 0x0A] @ ''    '') True # rest)))
   \<and> (map_of d ''assessment'' = None \<or> map_of d ''assessment'' = Some (PyStr [])
        \<longrightarrow> \<not> truthy (dict_get d ''assessment'' (PyStr [])))
   \<and> (map_of d ''recommended_authority_details'' = None
        \<or> map_of d ''recommended_authority_details'' = Some (PyStr [])
        \<longrightarrow> \<not> truthy (dict_get d ''recommended_authority_details'' (PyStr [])))\<close>
proof -
  have 1: "\<exists>out. render_decision pystr (PyDict d) shown = Inr (PyDict d, out)"
    by (simp add: render_decision_dict)
  have 2: "\<exists>card rest. render_decision pystr (PyDict d) shown =
           Inr (PyDict d, shown @ [St_markdown card True,
                                   St_markdown ''**What details to prepare**'' False] @ rest)"
    if "map_of d ''next_steps'' = None \<or> map_of d ''next_steps'' = Some (PyList [])"
  proof -
    from that have "\<not> nonempty_list (dict_get d ''next_steps'' (PyList []))"
      by (auto simp: dict_get_def nonempty_list_def)
    then show ?thesis by (simp add: render_decision_dict)
  qed
  have 3: \<open>\<exists>pill_class urgency authority authority_block rest.
           render_decision pystr (PyDict d) shown =
             Inr (PyDict d, shown @ St_markdown
                  ([CHR 0x0A] @ ''    <div class="card">''
                     @ [CHR 0x0A] @ ''      <div class="kpi">''
                     @ [CHR 0x0A] @ ''        <div class="pill '' @ pill_class @ ''">Urgency: '' @ urgency @ ''</div>''
                     @ [CHR 0x0A] @ ''        <div class="pill">Recommended authority: '' @ authority @ ''</div>''
                     @ [CHR 0x0A] @ ''      </div>''
                     @ [CHR 0x0A] @ ''      <hr/>''
                     @ [CHR 0x0A] @ ''      <div class="section-title">Assessment</div>''
                     @ [CHR 0x0A] @ ''      '' @ ''<span class='small'>(No assessment)</span>''
                     @ [CHR 0x0A] @ ''      <hr/>''
                     @ [CHR 0x0A] @ ''      <div class="section-title">Who to contact</div>''
                     @ [CHR 0x0A] @ ''      '' @ authority_block
                     @ [CHR 0x0A] @ ''      <hr/>''
                     @ [CHR 0x0A] @ ''      <div class="section-title">What to do now</div>''
                     @ [CHR 0x0A] @ ''    </div>''
                     @ [CHR 0x0A] @ ''    '') True # rest)\<close>
    if "\<not> truthy (dict_get d ''assessment'' (PyStr []))"
  proof -
    have \<open>\<exists>pill_class urgency authority authority_block rest.
           render_decision pystr (PyDict d) shown =
             Inr (PyDict d, shown @ St_markdown
                    (html_block pill_class urgency authority
                       ''<span class='small'>(No assessment)</span>'' authority_block) True # rest)\<close>
      using that render_card [of pystr d shown] by simp blast
    then show ?thesis unfolding html_block_text .
  qed
  have 4: \<open>\<exists>pill_class urgency authority assessment_block rest.
           render_decision pystr (PyDict d) shown =
             Inr (PyDict d, shown @ St_markdown
                  ([CHR 0x0A] @ ''    <div class="card">''
                     @ [CHR 0x0A] @ ''      <div class="kpi">''
                     @ [CHR 0x0A] @ ''        <div class="pill '' @ pill_class @ ''">Urgency: '' @ urgency @ ''</div>''
                     @ [CHR 0x0A] @ ''        <div class="pill">Recommended authority: '' @ authority @ ''</div>''
                     @ [CHR 0x0A] @ ''      </div>''
                     @ [CHR 0x0A] @ ''      <hr/>''
                     @ [CHR 0x0A] @ ''      <div class="section-title">Assessment</div>''
                     @ [CHR 0x0A] @ ''      '' @ assessment_block
                     @ [CHR 0x0A] @ ''      <hr/>''
                     @ [CHR 0x0A] @ ''      <div class="section-title">Who to contact</div>''
                     @ [CHR 0x0A] @ ''      '' @ ''<span class='small'>(Not enough info)</span>''
                     @ [CHR 0x0A] @ ''      <hr/>''
                     @ [CHR 0x0A] @ ''      <div class="section-title">What to do now</div>''
                     @ [CHR 0x0A] @ ''    </div>''
                     @ [CHR 0x0A] @ ''    '') True # rest)\<close>
    if "\<not> truthy (dict_get d ''recommended_authority_details'' (PyStr []))"
  proof -
    have \<open>\<exists>pill_class urgency authority assessment_block rest.
           render_decision pystr (PyDict d) shown =
             Inr (PyDict d, shown @ St_markdown
                    (html_block pill_class urgency authority assessment_block
                       ''<span class='small'>(Not enough info)</span>'') True # rest)\<close>
      using that render_card [of pystr d shown] by simp blast
    then show ?thesis unfolding html_block_text .
  qed
  have 5: "\<not> truthy (dict_get d k (PyStr []))"
    if "map_of d k = None \<or> map_of d k = Some (PyStr [])" for k
    using that by (auto simp: dict_get_def)
  from 1 2 3 4 5 show ?thesis by blast
qed

theorem render_total_and_pure_witness:
  \<open>(map_of [(''next_steps'', PyList []), (''assessment'', PyStr [])] ''next_steps'' = Some (PyList []))
   \<and> \<not> truthy (dict_get [(''next_steps'', PyList []), (''assessment'', PyStr [])] ''assessment'' (PyStr []))
   \<and> \<not> truthy (dict_get [(''next_steps'', PyList []), (''assessment'', PyStr [])]
                  ''recommended_authority_details'' (PyStr []))
   \<and> map_of [(''next_steps'', PyList []), (''assessment'', PyStr [])] ''assessment'' = Some (PyStr [])
   \<and> map_of [(''next_steps'', PyList []), (''assessment'', PyStr [])] ''recommended_authority_details'' = None
   \<and> render_decision (\<lambda>v. ''object'') (PyDict [(''next_steps'', PyList []), (''assessment'', PyStr [])]) []
       = Inr (PyDict [(''next_steps'', PyList []), (''assessment'', PyStr [])],
              [St_markdown
                ([CHR 0x0A] @ ''    <div class="card">''
                @ [CHR 0x0A] @ ''      <div class="kpi">''
                @ [CHR 0x0A] @ ''        <div class="pill '' @ ''ok'' @ ''">Urgency: '' @ ''Normal'' @ ''</div>''
                @ [CHR 0x0A] @ ''        <div class="pill">Recommended authority: '' @ ''Other'' @ ''</div>''
                @ [CHR 0x0A] @ ''      </div>''
                @ [CHR 0x0A] @ ''      <hr/>''
                @ [CHR 0x0A] @ ''      <div class="section-title">Assessment</div>''
                @ [CHR 0x0A] @ ''      '' @ ''<span class='small'>(No assessment)</span>''
                @ [CHR 0x0A] @ ''      <hr/>''
                @ [CHR 0x0A] @ ''      <div class="section-title">Who to contact</div>''
                @ [CHR 0x0A] @ ''      '' @ ''<span class='small'>(Not enough info)</span>''
                @ [CHR 0x0A] @ ''      <hr/>''
                @ [CHR 0x0A] @ ''      <div class="section-title">What to do now</div>''
                @ [CHR 0x0A] @ ''    </div>''
                @ [CHR 0x0A] @ ''    '') True,
               St_markdown ''**What details to prepare**'' False])
   \<and> render_decision (\<lambda>v. ''object'') (PyDict []) []
       = Inr (PyDict [],
              [St_markdown
                ([CHR 0x0A] @ ''    <div class="card">''
                @ [CHR 0x0A] @ ''      <div class="kpi">''
                @ [CHR 0x0A] @ ''        <div class="pill '' @ ''ok'' @ ''">Urgency: '' @ ''Normal'' @ ''</div>''
                @ [CHR 0x0A] @ ''        <div class="pill">Recommended authority: '' @ ''Other'' @ ''</div>''
                @ [CHR 0x0A] @ ''      </div>''
                @ [CHR 0x0A] @ ''      <hr/>''
                @ [CHR 0x0A] @ ''      <div class="section-title">Assessment</div>''
                @ [CHR 0x0A] @ ''      '' @ ''<span class='small'>(No assessment)</span>''
                @ [CHR 0x0A] @ ''      <hr/>''
                @ [CHR 0x0A] @ ''      <div class="section-title">Who to contact</div>''
                @ [CHR 0x0A] @ ''      '' @ ''<span class='small'>(Not enough info)</span>''
                @ [CHR 0x0A] @ ''      <hr/>''
                @ [CHR 0x0A] @ ''      <div class="section-title">What to do now</div>''
                @ [CHR 0x0A] @ ''    </div>''
                @ [CHR 0x0A] @ ''    '') True,
               St_markdown ''**What details to prepare**'' False])\<close>
  using render_total_and_pure [of \<open>\<lambda>v. ''object''\<close>
          \<open>[(''next_steps'', PyList []), (''assessment'', PyStr [])]\<close> \<open>[]\<close>]
        render_total_and_pure [of \<open>\<lambda>v. ''object''\<close> \<open>[]\<close> \<open>[]\<close>]
  by (simp add: render_decision_dict html_block_def nl_def pill_class_of_def dict_get_def fmt_def
        nonempty_list_def)

lemma tab_report_submit_sent:
  "py_strip issue_text \<noteq> [] \<Longrightarrow>
   fst (tab_report_submit ses lib issue_text location issue_category)
   = fst (call_flowise (config ses) (sid ses) (lib_loads lib) (lib_post lib)
            (issue_text @ nl @ ''Location: '' @ location @ nl @ ''Category: '' @ issue_category)
            (Some [(''location'', PyStr location), (''issue_category'', PyStr issue_category)]))"
  by (simp add: tab_report_submit_def Let_def split: prod.split)

lemma tab_report_submit_shown:
  "py_strip issue_text \<noteq> [] \<Longrightarrow>
   snd (tab_report_submit ses lib issue_text location issue_category)
   = show_outcome ses lib
       (snd (call_flowise (config ses) (sid ses) (lib_loads lib) (lib_post lib)
            (issue_text @ nl @ ''Location: '' @ location @ nl @ ''Category: '' @ issue_category)
            (Some [(''location'', PyStr location), (''issue_category'', PyStr issue_category)])))"
  by (simp add: tab_report_submit_def Let_def split: prod.split)

lemma tab_eval_run_sent:
  "fst (tab_eval_run ses lib s)
   = fst (call_flowise (config ses) (sid ses) (lib_loads lib) (lib_post lib)
            (py_strip (py_join nl [fst s, ''Location: '' @ snd s]))
            (Some [(''location'', PyStr (snd s))]))"
  by (simp add: tab_eval_run_def Let_def split: prod.split)

lemma tab_eval_run_shown:
  "snd (tab_eval_run ses lib s)
   = show_outcome ses lib
       (snd (call_flowise (config ses) (sid ses) (lib_loads lib) (lib_post lib)
            (py_strip (py_join nl [fst s, ''Location: '' @ snd s]))
            (Some [(''location'', PyStr (snd s))])))"
  by (simp add: tab_eval_run_def Let_def split: prod.split)

text \<open>
  C6, as amended. When the report form is submitted with a non-blank issue text and a flow
  id is configured, one request is sent, and its \<^verbatim>\<open>question\<close> field is the issue text
  followed by the line \<^verbatim>\<open>Location: <location>\<close> and by the line
  \<^verbatim>\<open>Category: <category>\<close>. The run handler of the evaluation tab sends the issue text
  followed by the location line only, trimmed.
\<close>

theorem report_question_payload:
  "(py_strip issue_text \<noteq> [] \<and> chatflow_id (config ses) \<noteq> [] \<longrightarrow>
      map (\<lambda>q. dict_get (req_json q) ''question'' PyNone)
          (fst (tab_report_submit ses lib issue_text location issue_category))
      = [PyStr (issue_text @ nl @ ''Location: '' @ location @ nl @ ''Category: '' @ issue_category)])
   \<and> (chatflow_id (config ses) \<noteq> [] \<longrightarrow>
      map (\<lambda>q. dict_get (req_json q) ''question'' PyNone) (fst (tab_eval_run ses lib (issue, location)))
      = [PyStr (py_strip (issue @ nl @ ''Location: '' @ location))])"
  by (simp add: tab_report_submit_sent tab_eval_run_sent call_flowise_sent dict_get_def)

theorem report_question_payload_witness:
  \<open>py_strip ''The lift at Blk 210 has been down since yesterday.'' \<noteq> []
   \<and> chatflow_id (config \<lparr>config = \<lparr>base_url = ''https://cloud.flowiseai.com'',
                  chatflow_id = ''28bddf08-01dc-4472-aa7f-e6f7e2c0297f'', api_key = []\<rparr>,
            sid = ''session-1'', show_debug = False\<rparr>) \<noteq> []
   \<and> map (\<lambda>q. dict_get (req_json q) ''question'' PyNone)
          (fst (tab_report_submit
             \<lparr>config = \<lparr>base_url = ''https://cloud.flowiseai.com'',
                  chatflow_id = ''28bddf08-01dc-4472-aa7f-e6f7e2c0297f'', api_key = []\<rparr>,
              sid = ''session-1'', show_debug = False\<rparr>
             \<lparr>lib_loads = json_loads, lib_post = (\<lambda>req. Inl (RequestException ''unreachable'')),
              lib_str = (\<lambda>v. ''object''), lib_dumps = (\<lambda>v. ''object'')\<rparr>
             ''The lift at Blk 210 has been down since yesterday.'' ''Tampines, Blk 210''
             ''Town Council''))
      = [PyStr (''The lift at Blk 210 has been down since yesterday.'' @ [CHR 0x0A]
                @ ''Location: Tampines, Blk 210'' @ [CHR 0x0A] @ ''Category: Town Council'')]
   \<and> map (\<lambda>q. dict_get (req_json q) ''question'' PyNone)
          (fst (tab_eval_run
             \<lparr>config = \<lparr>base_url = ''https://cloud.flowiseai.com'',
                  chatflow_id = ''28bddf08-01dc-4472-aa7f-e6f7e2c0297f'', api_key = []\<rparr>,
              sid = ''session-1'', show_debug = False\<rparr>
             \<lparr>lib_loads = json_loads, lib_post = (\<lambda>req. Inl (RequestException ''unreachable'')),
              lib_str = (\<lambda>v. ''object''), lib_dumps = (\<lambda>v. ''object'')\<rparr>
             (snd (hd scenarios))))
      = [PyStr (''The lift at Blk 210 has been down since yesterday. Elderly residents cannot go downstairs.''
                @ [CHR 0x0A] @ ''Location: Tampines, Blk 210'')]\<close>
proof -
  have h1: \<open>py_strip ''The lift at Blk 210 has been down since yesterday.'' \<noteq> []\<close>
    by code_simp
  have h2: \<open>py_strip (''The lift at Blk 210 has been down since yesterday. Elderly residents cannot go downstairs.''
                      @ nl @ ''Location: '' @ ''Tampines, Blk 210'')
            = ''The lift at Blk 210 has been down since yesterday. Elderly residents cannot go downstairs.''
              @ [CHR 0x0A] @ ''Location: Tampines, Blk 210''\<close>
    by code_simp
  have h3: \<open>snd (hd scenarios)
            = (''The lift at Blk 210 has been down since yesterday. Elderly residents cannot go downstairs.'',
               ''Tampines, Blk 210'')\<close>
    by (simp add: scenarios_def)
  from report_question_payload
         [of \<open>''The lift at Blk 210 has been down since yesterday.''\<close>
             \<open>\<lparr>config = \<lparr>base_url = ''https://cloud.flowiseai.com'',
                  chatflow_id = ''28bddf08-01dc-4472-aa7f-e6f7e2c0297f'', api_key = []\<rparr>,
              sid = ''session-1'', show_debug = False\<rparr>\<close>
             \<open>\<lparr>lib_loads = json_loads, lib_post = (\<lambda>req. Inl (RequestException ''unreachable'')),
              lib_str = (\<lambda>v. ''object''), lib_dumps = (\<lambda>v. ''object'')\<rparr>\<close>
             \<open>''Tampines, Blk 210''\<close> \<open>''Town Council''\<close>
             \<open>''The lift at Blk 210 has been down since yesterday. Elderly residents cannot go downstairs.''\<close>]
       h1 h2 h3
  show ?thesis by (simp add: nl_def)
qed

theorem report_question_counterexample:
  \<open>map (\<lambda>q. dict_get (req_json q) ''question'' PyNone)
          (fst (tab_report_submit
             \<lparr>config = \<lparr>base_url = ''https://cloud.flowiseai.com'',
                  chatflow_id = ''28bddf08-01dc-4472-aa7f-e6f7e2c0297f'', api_key = []\<rparr>,
              sid = ''session-1'', show_debug = False\<rparr>
             \<lparr>lib_loads = json_loads, lib_post = (\<lambda>req. Inl (RequestException ''unreachable'')),
              lib_str = (\<lambda>v. ''object''), lib_dumps = (\<lambda>v. ''object'')\<rparr>
             ''The lift at Blk 210 has been down since yesterday.'' ''Tampines, Blk 210''
             ''Auto-detect''))
      = [PyStr (''The lift at Blk 210 has been down since yesterday.'' @ [CHR 0x0A]
                @ ''Location: Tampines, Blk 210'' @ [CHR 0x0A] @ ''Category: Auto-detect'')]
   \<and> ''The lift at Blk 210 has been down since yesterday.'' @ [CHR 0x0A]
                @ ''Location: Tampines, Blk 210'' @ [CHR 0x0A] @ ''Category: Auto-detect''
       \<noteq> ''The lift at Blk 210 has been down since yesterday.'' @ [CHR 0x0A]
                @ ''Location: Tampines, Blk 210''\<close>
  by code_simp

lemma show_outcome_error:
  "show_outcome ses lib (Inl e)
   = [St_spinner spinner_text, St_error (''Flowise call failed: '' @ exc_str e), St_stop]"
  by (simp add: show_outcome_def)

lemma call_flowise_error:
  assumes "\<forall>req. post req = Inr raw"
    and "extract_json_from_flowise_response loads raw = Inl e"
  shows "\<exists>e'. snd (call_flowise cfg session_sid loads post question extra) = Inl e'
           \<and> (chatflow_id cfg \<noteq> [] \<longrightarrow> e' = e)"
  using assms by (simp add: call_flowise_def Let_def)

text \<open>
  C2. When no probed string of a response yields a parse, neither the direct one nor the
  salvaged one, the extractor raises. The handlers then show the error and stop: whatever
  the form holds, once the exchange has returned such a response they show no markdown at
  all, so neither the heading nor any part of a recommendation; with a non-blank issue
  text and a flow id configured the report handler shows exactly the spinner, the error
  and the stop.
\<close>

theorem unparseable_response_aborts:
  assumes "\<forall>s \<in> set (probed_strings raw). \<not> yields_parse (lib_loads lib) s"
    and "\<forall>req. lib_post lib req = Inr raw"
  shows "\<exists>e. extract_json_from_flowise_response (lib_loads lib) raw = Inl e
           \<and> (py_strip issue_text \<noteq> [] \<and> chatflow_id (config ses) \<noteq> [] \<longrightarrow>
                snd (tab_report_submit ses lib issue_text location issue_category)
                = [St_spinner spinner_text, St_error (''Flowise call failed: '' @ exc_str e), St_stop])
           \<and> (\<forall>text html. St_markdown text html
                  \<notin> set (snd (tab_report_submit ses lib issue_text location issue_category)))
           \<and> (\<forall>text html. St_markdown text html \<notin> set (snd (tab_eval_run ses lib s)))"
proof -
  have "\<not> (\<exists>v. extract_json_from_flowise_response (lib_loads lib) raw = Inr v)"
  proof
    assume "\<exists>v. extract_json_from_flowise_response (lib_loads lib) raw = Inr v"
    then obtain v where "extract_json_from_flowise_response (lib_loads lib) raw = Inr v" ..
    from extract_sound [OF this] obtain s' where "s' \<in> set (probed_strings raw)"
      and "truthy (salvage_parse (lib_loads lib) s')" by auto
    with assms(1) have "salvage_parse (lib_loads lib) s' = PyNone"
      by (intro not_yields_parse) blast
    with \<open>truthy (salvage_parse (lib_loads lib) s')\<close> show False by simp
  qed
  then obtain e where e: "extract_json_from_flowise_response (lib_loads lib) raw = Inl e"
    by (cases "extract_json_from_flowise_response (lib_loads lib) raw") auto
  have report: "snd (tab_report_submit ses lib issue_text location issue_category)
                = [St_spinner spinner_text, St_error (''Flowise call failed: '' @ exc_str e), St_stop]"
    if "py_strip issue_text \<noteq> []" "chatflow_id (config ses) \<noteq> []"
    using that assms(2) e
    by (simp add: tab_report_submit_shown call_flowise_def Let_def show_outcome_error)
  have no_md: "\<forall>text html. St_markdown text html
                 \<notin> set (show_outcome ses lib (snd (call_flowise (config ses) (sid ses)
                          (lib_loads lib) (lib_post lib) q x)))" for q x
    using call_flowise_error [OF assms(2) e, of "config ses" "sid ses" q x]
    by (auto simp: show_outcome_error)
  have "\<forall>text html. St_markdown text html
          \<notin> set (snd (tab_report_submit ses lib issue_text location issue_category))"
  proof (cases "py_strip issue_text = []")
    case True
    then show ?thesis by (simp add: tab_report_submit_def)
  next
    case False
    then show ?thesis using no_md by (simp add: tab_report_submit_shown)
  qed
  moreover have "\<forall>text html. St_markdown text html \<notin> set (snd (tab_eval_run ses lib s))"
    using no_md by (simp add: tab_eval_run_shown)
  ultimately show ?thesis using e report by blast
qed

theorem unparseable_response_aborts_witness:
  \<open>filter (yields_parse json_loads)
      (probed_strings
          (PyDict [(''text'', PyStr ''Sorry, I cannot help.''),
                   (''agentFlowExecutedData'',
                    PyList [PyDict [(''data'', PyDict [(''output'',
                       PyDict [(''content'', PyStr ''{not json}'')])])]])])) = []
   \<and> extract_json_from_flowise_response json_loads
        (PyDict [(''text'', PyStr ''Sorry, I cannot help.''),
                   (''agentFlowExecutedData'',
                    PyList [PyDict [(''data'', PyDict [(''output'',
                       PyDict [(''content'', PyStr ''{not json}'')])])]])])
       = Inl (RuntimeError no_json_message)
   \<and> snd (tab_report_submit
             \<lparr>config = \<lparr>base_url = ''https://cloud.flowiseai.com'',
                  chatflow_id = ''28bddf08-01dc-4472-aa7f-e6f7e2c0297f'', api_key = []\<rparr>,
              sid = ''session-1'', show_debug = True\<rparr>
             \<lparr>lib_loads = json_loads,
              lib_post = (\<lambda>req. Inr (PyDict [(''text'', PyStr ''Sorry, I cannot help.''),
                   (''agentFlowExecutedData'',
                    PyList [PyDict [(''data'', PyDict [(''output'',
                       PyDict [(''content'', PyStr ''{not json}'')])])]])])),
              lib_str = (\<lambda>v. ''object''), lib_dumps = (\<lambda>v. ''object'')\<rparr>
             ''The lift at Blk 210 has been down since yesterday.'' ''Tampines, Blk 210''
             ''Auto-detect'')
       = [St_spinner spinner_text,
          St_error (''Flowise call failed: '' @ no_json_message),
          St_stop]\<close>
proof -
  let ?raw = \<open>PyDict [(''text'', PyStr ''Sorry, I cannot help.''),
                   (''agentFlowExecutedData'',
                    PyList [PyDict [(''data'', PyDict [(''output'',
                       PyDict [(''content'', PyStr ''{not json}'')])])]])]\<close>
  let ?ses = \<open>\<lparr>config = \<lparr>base_url = ''https://cloud.flowiseai.com'',
                  chatflow_id = ''28bddf08-01dc-4472-aa7f-e6f7e2c0297f'', api_key = []\<rparr>,
              sid = ''session-1'', show_debug = True\<rparr>\<close>
  let ?lib = \<open>\<lparr>lib_loads = json_loads, lib_post = (\<lambda>req. Inr ?raw),
              lib_str = (\<lambda>v. ''object''), lib_dumps = (\<lambda>v. ''object'')\<rparr>\<close>
  have h1: "\<forall>s \<in> set (probed_strings ?raw). \<not> yields_parse (lib_loads ?lib) s"
    by code_simp
  have h2: "\<forall>req. lib_post ?lib req = Inr ?raw" by simp
  have h3: \<open>py_strip ''The lift at Blk 210 has been down since yesterday.'' \<noteq> []\<close>
    by code_simp
  have h4: "extract_json_from_flowise_response json_loads ?raw = Inl (RuntimeError no_json_message)"
    by code_simp
  from unparseable_response_aborts [OF h1 h2,
         of \<open>''The lift at Blk 210 has been down since yesterday.''\<close> ?ses
            \<open>''Tampines, Blk 210''\<close> \<open>''Auto-detect''\<close>]
  obtain e where a: "extract_json_from_flowise_response (lib_loads ?lib) ?raw = Inl e"
    and b: "py_strip ''The lift at Blk 210 has been down since yesterday.'' \<noteq> []
           \<and> chatflow_id (config ?ses) \<noteq> [] \<longrightarrow>
         snd (tab_report_submit ?ses ?lib ''The lift at Blk 210 has been down since yesterday.''
                ''Tampines, Blk 210'' ''Auto-detect'')
         = [St_spinner spinner_text, St_error (''Flowise call failed: '' @ exc_str e), St_stop]"
    by blast
  from a h4 have "e = RuntimeError no_json_message" by simp
  with b h1 h3 h4 show ?thesis by (simp add: filter_empty_conv)
qed

end
